theory Spec2Isabelle
  imports Complex_Main "HOL-Library.AList" "HOL-Library.Multiset"
begin

chapter \<open>The model\<close>

section \<open>Values and errors\<close>

text \<open>
  The services read dynamically typed values: pages of the work tracker and responses of
  the time tracker. A value is \<open>undefined\<close>, \<open>null\<close>, a boolean, a number, a string, an
  array or an object; an object is its list of keys and values in order, read at the
  first occurrence of a key. Numbers are integers here; fractions and NaN are not
  represented.
\<close>

datatype json =
    JUndefined
  | JNull
  | JBool bool
  | JNum int
  | JStr string
  | JArr "json list"
  | JObj "(string \<times> json) list"

text \<open>
  What a function throws. \<open>TypeError\<close> is the engine's own (reading a property of
  \<open>null\<close> or \<open>undefined\<close>, calling what is not a function); \<open>Error msg\<close> is
  \<open>new Error(msg)\<close>, and also stands for a failure of the network or of the store with
  that message. \<open>Unmodelled\<close> marks the few shapes this model does not follow.
\<close>

datatype error = TypeError | Error string | Unmodelled

definition bindE :: "error + 'a \<Rightarrow> ('a \<Rightarrow> error + 'b) \<Rightarrow> error + 'b" where
  "bindE m f = (case m of Inl e \<Rightarrow> Inl e | Inr x \<Rightarrow> f x)"

text \<open>\<open>xs.map(f)\<close> where \<open>f\<close> may throw: the first throw ends the traversal.\<close>

fun mapE :: "('a \<Rightarrow> error + 'b) \<Rightarrow> 'a list \<Rightarrow> error + 'b list" where
  "mapE f [] = Inr []"
| "mapE f (x # xs) = bindE (f x) (\<lambda>y. bindE (mapE f xs) (\<lambda>ys. Inr (y # ys)))"

text \<open>Truthiness, as \<open>if (v)\<close>, \<open>!v\<close>, \<open>v || w\<close> and \<open>v && w\<close> read it.\<close>

fun truthy :: "json \<Rightarrow> bool" where
  "truthy JUndefined = False"
| "truthy JNull = False"
| "truthy (JBool b) = b"
| "truthy (JNum n) = (n \<noteq> 0)"
| "truthy (JStr s) = (s \<noteq> [])"
| "truthy (JArr xs) = True"
| "truthy (JObj kvs) = True"

definition orElse :: "json \<Rightarrow> json \<Rightarrow> json" where
  "orElse v w = (if truthy v then v else w)"

fun nullish :: "json \<Rightarrow> bool" where
  "nullish JUndefined = True"
| "nullish JNull = True"
| "nullish v = False"

text \<open>
  \<open>v.k\<close> and \<open>v[k]\<close>: a TypeError on \<open>null\<close> and \<open>undefined\<close>, the value under the key
  in an object, \<open>undefined\<close> otherwise. The built-in properties of strings and arrays
  (\<open>length\<close>) are read by \<open>lengthOf\<close> where the source reads them.
\<close>

fun getp :: "json \<Rightarrow> string \<Rightarrow> error + json" where
  "getp JUndefined k = Inl TypeError"
| "getp JNull k = Inl TypeError"
| "getp (JObj kvs) k = Inr (case map_of kvs k of None \<Rightarrow> JUndefined | Some v \<Rightarrow> v)"
| "getp v k = Inr JUndefined"

text \<open>\<open>v?.k\<close>: as \<open>v.k\<close>, but \<open>undefined\<close> on \<open>null\<close> and \<open>undefined\<close>.\<close>

fun getq :: "json \<Rightarrow> string \<Rightarrow> json" where
  "getq (JObj kvs) k = (case map_of kvs k of None \<Rightarrow> JUndefined | Some v \<Rightarrow> v)"
| "getq v k = JUndefined"

text \<open>
  \<open>v.map(f)\<close> on a value that is not \<open>null\<close> or \<open>undefined\<close>: only an array has the
  method, anything else is a TypeError.
\<close>

fun jsMap :: "(json \<Rightarrow> error + json) \<Rightarrow> json \<Rightarrow> error + json" where
  "jsMap f (JArr xs) = bindE (mapE f xs) (\<lambda>ys. Inr (JArr ys))"
| "jsMap f v = Inl TypeError"

text \<open>\<open>v?.map(f)\<close>\<close>

definition jsMapOpt :: "(json \<Rightarrow> error + json) \<Rightarrow> json \<Rightarrow> error + json" where
  "jsMapOpt f v = (if nullish v then Inr JUndefined else jsMap f v)"

text \<open>Decimal digits of a number, for \<open>String(n)\<close>.\<close>

fun natToString :: "nat \<Rightarrow> string" where
  "natToString n =
     (if n < 10 then [char_of (48 + n)]
      else natToString (n div 10) @ [char_of (48 + n mod 10)])"

definition intToString :: "int \<Rightarrow> string" where
  "intToString i = (if i < 0 then CHR ''-'' # natToString (nat (- i)) else natToString (nat i))"

text \<open>\<open>xs.join(sep)\<close> on strings.\<close>

fun joinWith :: "string \<Rightarrow> string list \<Rightarrow> string" where
  "joinWith sep [] = []"
| "joinWith sep [s] = s"
| "joinWith sep (s # t # ts) = s @ sep @ joinWith sep (t # ts)"

text \<open>
  \<open>String(v)\<close>, which \<open>join\<close> applies to each element: an array is its elements joined
  by commas, \<open>null\<close> and \<open>undefined\<close> inside an array or a join are empty.
\<close>

fun jsToString :: "json \<Rightarrow> string"
  and joinElem :: "json \<Rightarrow> string" where
  "jsToString JUndefined = ''undefined''"
| "jsToString JNull = ''null''"
| "jsToString (JBool b) = (if b then ''true'' else ''false'')"
| "jsToString (JNum n) = intToString n"
| "jsToString (JStr s) = s"
| "jsToString (JArr xs) = joinWith '','' (map joinElem xs)"
| "jsToString (JObj kvs) = ''[object Object]''"
| "joinElem v = (if nullish v then [] else jsToString v)"

text \<open>\<open>xs.join('')\<close>\<close>

definition joinEmpty :: "json list \<Rightarrow> string" where
  "joinEmpty xs = concat (map joinElem xs)"

section \<open>Property extraction (extractProperty)\<close>

text \<open>
  What extraction returns: a plain value, or the \<open>Date\<close> object built by
  \<open>new Date(v)\<close> from the raw timestamp \<open>v\<close>.
\<close>

datatype extracted = Value json | DateOf json

text \<open>
  \<open>v[k]\<close> with a key that comes from the caller. An object answers with the value
  under its own key and with \<open>undefined\<close> for a key it does not have, unless the key is
  one that every object inherits from the engine (\<open>constructor\<close>, \<open>toString\<close>, ...):
  then it answers with the engine's function or prototype object, which is truthy and
  has none of the fields that extraction reads from a property; \<open>JObj []\<close> stands for
  it. The indices and built-in properties of strings, arrays, numbers and booleans are
  not followed.
\<close>

definition inheritedKeys :: "string list" where
  "inheritedKeys =
     [''constructor'', ''__proto__'', ''hasOwnProperty'', ''isPrototypeOf'',
      ''propertyIsEnumerable'', ''toLocaleString'', ''toString'', ''valueOf'',
      ''__defineGetter__'', ''__defineSetter__'', ''__lookupGetter__'', ''__lookupSetter__'']"

fun getKey :: "json \<Rightarrow> string \<Rightarrow> error + json" where
  "getKey JUndefined k = Inl TypeError"
| "getKey JNull k = Inl TypeError"
| "getKey (JObj kvs) k =
     (case map_of kvs k of
        Some v \<Rightarrow> Inr v
      | None \<Rightarrow> if k \<in> set inheritedKeys then Inr (JObj []) else Inr JUndefined)"
| "getKey v k = Inl Unmodelled"

text \<open>
  The lookup at the head of the function: by identifier first; when that gives nothing
  truthy and a non-empty fallback name is given, by name. Reading \<open>page.properties\<close>
  of a page without a property bag throws.
\<close>

definition lookupProperty :: "json \<Rightarrow> string \<Rightarrow> string option \<Rightarrow> error + json" where
  "lookupProperty page propertyId propertyName =
     bindE (getp page ''properties'') (\<lambda>properties.
     bindE (getKey properties propertyId) (\<lambda>byId.
       case propertyName of
         None \<Rightarrow> Inr byId
       | Some name \<Rightarrow>
           if \<not> truthy byId \<and> name \<noteq> [] then getKey properties name else Inr byId))"

text \<open>\<open>segments.map(segment => segment.plain_text || '').join('') || ''\<close>\<close>

definition segmentText :: "json \<Rightarrow> error + json" where
  "segmentText segment = bindE (getp segment ''plain_text'') (\<lambda>t. Inr (orElse t (JStr [])))"

definition concatSegments :: "json \<Rightarrow> error + extracted" where
  "concatSegments segments =
     (case segments of
        JArr (x # xs) \<Rightarrow>
          bindE (mapE segmentText (x # xs)) (\<lambda>ts. Inr (Value (JStr (joinEmpty ts))))
      | _ \<Rightarrow> Inr (Value (JStr [])))"

text \<open>\<open>v.map(x => x.id)\<close> and \<open>.filter(id => id)\<close>\<close>

definition idOf :: "json \<Rightarrow> error + json" where
  "idOf x = getp x ''id''"

definition idsOf :: "json list \<Rightarrow> error + json list" where
  "idsOf xs = bindE (mapE idOf xs) (\<lambda>ids. Inr (filter truthy ids))"

text \<open>\<open>array.flatMap(f)\<close>, with \<open>f\<close> returning arrays.\<close>

definition flatMapE :: "(json \<Rightarrow> error + json list) \<Rightarrow> json list \<Rightarrow> error + json list" where
  "flatMapE f xs = bindE (mapE f xs) (\<lambda>yss. Inr (concat yss))"

text \<open>The flattening callbacks of the rollup cases 1, 2 and 5.\<close>

definition nestedIds :: "string \<Rightarrow> json \<Rightarrow> error + json list" where
  "nestedIds k item =
     bindE (getp item k) (\<lambda>v.
       case v of JArr ps \<Rightarrow> idsOf ps | _ \<Rightarrow> Inr [])"

definition idOrSelf :: "json \<Rightarrow> error + json" where
  "idOrSelf p = bindE (getp p ''id'') (\<lambda>i. Inr (orElse i p))"

definition nestedPeople :: "json \<Rightarrow> error + json list" where
  "nestedPeople item =
     bindE (getp item ''people'') (\<lambda>v.
       case v of
         JArr ps \<Rightarrow> bindE (mapE idOrSelf ps) (\<lambda>ids. Inr (filter truthy ids))
       | _ \<Rightarrow> if truthy (getq v ''id'') then Inr [getq v ''id''] else Inr [])"

text \<open>
  A rollup of type \<open>array\<close>: the shape of the first element decides how the array is
  flattened. The five cases are tried in the source's order.
\<close>

definition rollupArray :: "json list \<Rightarrow> error + json" where
  "rollupArray items =
     (case items of
        [] \<Rightarrow> Inr (JArr [])
      | firstItem # _ \<Rightarrow>
          if getq firstItem ''type'' = JStr ''people'' \<and> truthy (getq firstItem ''people'')
          then bindE (flatMapE (nestedIds ''people'') items) (\<lambda>ids. Inr (JArr (filter truthy ids)))
          else if getq firstItem ''type'' = JStr ''relation'' \<and> truthy (getq firstItem ''relation'')
          then bindE (flatMapE (nestedIds ''relation'') items) (\<lambda>ids. Inr (JArr (filter truthy ids)))
          else if getq firstItem ''object'' = JStr ''user''
                  \<or> (truthy (getq firstItem ''id'') \<and> getq firstItem ''type'' = JUndefined)
          then bindE (idsOf items) (\<lambda>ids. Inr (JArr ids))
          else if truthy (getq firstItem ''id'') \<and> \<not> truthy (getq firstItem ''object'')
          then bindE (idsOf items) (\<lambda>ids. Inr (JArr ids))
          else if truthy (getq firstItem ''people'')
          then bindE (flatMapE nestedPeople items) (\<lambda>ids. Inr (JArr (filter truthy ids)))
          else Inr (JArr items))"

text \<open>
  \<open>const array = prop.rollup.array || []\<close> may hold something that is not an array. A
  string, a number or \<open>true\<close> matches none of the five cases and is returned as it is,
  and so is an object without a \<open>length\<close>; an object posing as an array is not
  followed.
\<close>

definition extractRollup :: "json \<Rightarrow> error + json" where
  "extractRollup prop =
     (let rollup = getq prop ''rollup'' in
      if getq rollup ''type'' = JStr ''number'' then Inr (getq rollup ''number'')
      else if getq rollup ''type'' = JStr ''array'' then
        (case orElse (getq rollup ''array'') (JArr []) of
           JArr items \<Rightarrow> rollupArray items
         | JObj kvs \<Rightarrow> if map_of kvs ''length'' = None then Inr (JObj kvs) else Inl Unmodelled
         | v \<Rightarrow> Inr v)
      else Inr JNull)"

definition extractFormula :: "json \<Rightarrow> json" where
  "extractFormula prop =
     (let formula = getq prop ''formula'' in
      if getq formula ''type'' = JStr ''number'' then getq formula ''number''
      else if getq formula ''type'' = JStr ''string'' then getq formula ''string''
      else if getq formula ''type'' = JStr ''boolean'' then getq formula ''boolean''
      else if getq formula ''type'' = JStr ''date'' then getq formula ''date''
      else JNull)"

text \<open>\<open>file.file?.url || file.external?.url || null\<close>\<close>

definition fileUrl :: "json \<Rightarrow> error + json" where
  "fileUrl file =
     bindE (getp file ''file'') (\<lambda>f.
     if truthy (getq f ''url'') then Inr (getq f ''url'')
     else bindE (getp file ''external'') (\<lambda>e. Inr (orElse (getq e ''url'') JNull)))"

text \<open>\<open>prop.k?.map(f) || []\<close>\<close>

definition mapOrEmpty :: "(json \<Rightarrow> error + json) \<Rightarrow> json \<Rightarrow> error + json" where
  "mapOrEmpty f v = bindE (jsMapOpt f v) (\<lambda>r. Inr (orElse r (JArr [])))"

text \<open>
  The \<open>switch\<close> on the declared type, for a property that was found. \<open>prop\<close> is truthy
  here, so reading its fields does not throw.
\<close>

definition extractValue :: "string \<Rightarrow> json \<Rightarrow> error + extracted" where
  "extractValue propertyType prop =
     (if propertyType = ''title'' then concatSegments (getq prop ''title'')
      else if propertyType = ''rich_text'' then concatSegments (getq prop ''rich_text'')
      else if propertyType = ''select'' then
        Inr (Value (orElse (getq (getq prop ''select'') ''name'') JNull))
      else if propertyType = ''date'' then
        (if truthy (getq prop ''date'')
         then Inr (Value (JObj [(''start'', getq (getq prop ''date'') ''start''),
                                (''end'', getq (getq prop ''date'') ''end''),
                                (''time_zone'', getq (getq prop ''date'') ''time_zone'')]))
         else Inr (Value JNull))
      else if propertyType = ''people'' then
        bindE (mapOrEmpty idOf (getq prop ''people'')) (\<lambda>v. Inr (Value v))
      else if propertyType = ''relation'' then
        bindE (mapOrEmpty idOf (getq prop ''relation'')) (\<lambda>v. Inr (Value v))
      else if propertyType = ''number'' then Inr (Value (getq prop ''number''))
      else if propertyType = ''checkbox'' then Inr (Value (getq prop ''checkbox''))
      else if propertyType = ''formula'' then Inr (Value (extractFormula prop))
      else if propertyType = ''rollup'' then bindE (extractRollup prop) (\<lambda>v. Inr (Value v))
      else if propertyType = ''url'' then Inr (Value (getq prop ''url''))
      else if propertyType = ''email'' then Inr (Value (getq prop ''email''))
      else if propertyType = ''phone_number'' then Inr (Value (getq prop ''phone_number''))
      else if propertyType = ''multi_select'' then
        bindE (mapOrEmpty (\<lambda>item. getp item ''name'') (getq prop ''multi_select''))
          (\<lambda>v. Inr (Value v))
      else if propertyType = ''files'' then
        bindE (jsMapOpt fileUrl (getq prop ''files'')) (\<lambda>r.
          case r of
            JArr urls \<Rightarrow> Inr (Value (JArr (filter (\<lambda>url. url \<noteq> JNull) urls)))
          | _ \<Rightarrow> Inr (Value (JArr [])))
      else if propertyType = ''created_time'' then
        (if truthy (getq prop ''created_time'') then Inr (DateOf (getq prop ''created_time''))
         else Inr (Value JNull))
      else if propertyType = ''last_edited_time'' then
        (if truthy (getq prop ''last_edited_time'')
         then Inr (DateOf (getq prop ''last_edited_time''))
         else Inr (Value JNull))
      else Inr (Value JNull))"

definition extractProperty ::
  "json \<Rightarrow> string \<Rightarrow> string \<Rightarrow> string option \<Rightarrow> error + extracted" where
  "extractProperty page propertyId propertyType propertyName =
     bindE (lookupProperty page propertyId propertyName) (\<lambda>prop.
       if \<not> truthy prop then Inr (Value JNull) else extractValue propertyType prop)"

text \<open>The text of one title segment, read from a page directly.\<close>

definition plainTextOf :: "json \<Rightarrow> string" where
  "plainTextOf segment = (case getq segment ''plain_text'' of JStr s \<Rightarrow> s | _ \<Rightarrow> [])"

text \<open>The name of one select option, read from a page directly.\<close>

definition optionNameOf :: "json \<Rightarrow> json" where
  "optionNameOf item = getq item ''name''"

text \<open>A segment or an option is well formed when it is an object.\<close>

fun isObject :: "json \<Rightarrow> bool" where
  "isObject (JObj kvs) = True"
| "isObject v = False"

text \<open>A text segment is well formed when it is an object whose text, if any, is a string.\<close>

definition isTextSegment :: "json \<Rightarrow> bool" where
  "isTextSegment segment =
     (isObject segment \<and>
      (case getq segment ''plain_text'' of JStr s \<Rightarrow> True | JUndefined \<Rightarrow> True | _ \<Rightarrow> False))"

text \<open>
  A property is absent from a bag under the identifier and under the fallback name when
  the bag has neither key, and neither key is one that every object inherits.
\<close>

definition absentFrom :: "(string \<times> json) list \<Rightarrow> string \<Rightarrow> string option \<Rightarrow> bool" where
  "absentFrom props propertyId propertyName =
     (map_of props propertyId = None \<and> propertyId \<notin> set inheritedKeys \<and>
      (case propertyName of
         None \<Rightarrow> True
       | Some name \<Rightarrow> map_of props name = None \<and> name \<notin> set inheritedKeys))"

text \<open>
  A page with a two-segment title under the identifier \<open>title\<close> and a multi-select
  stored under the name \<open>Tags\<close>.
\<close>

definition exampleProperties :: "(string \<times> json) list" where
  "exampleProperties =
     [(''title'', JObj [(''type'', JStr ''title''),
                        (''title'', JArr [JObj [(''plain_text'', JStr ''Hello '')],
                                          JObj [(''plain_text'', JStr ''World'')]])]),
      (''Tags'', JObj [(''type'', JStr ''multi_select''),
                       (''multi_select'', JArr [JObj [(''name'', JStr ''A'')],
                                                JObj [(''name'', JStr ''B'')]])])]"

definition examplePage :: json where
  "examplePage = JObj [(''id'', JStr ''page-1''), (''properties'', JObj exampleProperties)]"

text \<open>A page that carries no property bag.\<close>

definition baglessPage :: json where
  "baglessPage = JObj [(''id'', JStr ''page-2'')]"

section \<open>Paginated fetch (fetchAllPages)\<close>

text \<open>
  One query to the work tracker and its answer. The tracker is outside the program: it
  is a function from requests to answers, or to the error the client throws.
\<close>

record request =
  database_id :: string
  start_cursor :: "string option"
  query_filter :: "json option"
  page_size :: int

record response =
  results :: "json list"
  has_more :: bool
  next_cursor :: "string option"

type_synonym tracker = "request \<Rightarrow> error + response"

text \<open>
  An exchange is a request, the number of pages accumulated when it was sent, and the
  answer to it.
\<close>

type_synonym exchange = "nat \<times> request \<times> response"

text \<open>\<open>limit ? limit - allPages.length : undefined\<close>; a limit of 0 is falsy.\<close>

definition remainingLimitOf :: "int option \<Rightarrow> nat \<Rightarrow> int option" where
  "remainingLimitOf limit n =
     (case limit of None \<Rightarrow> None | Some l \<Rightarrow> if l = 0 then None else Some (l - int n))"

text \<open>\<open>remainingLimit && remainingLimit < 100 ? remainingLimit : 100\<close>\<close>

definition pageSizeOf :: "int option \<Rightarrow> int" where
  "pageSizeOf remainingLimit =
     (case remainingLimit of
        None \<Rightarrow> 100
      | Some r \<Rightarrow> if r \<noteq> 0 \<and> r < 100 then r else 100)"

text \<open>\<open>xs.slice(0, k)\<close>: a negative \<open>k\<close> counts from the end.\<close>

definition slice0 :: "'a list \<Rightarrow> int \<Rightarrow> 'a list" where
  "slice0 xs k = (if 0 \<le> k then take (nat k) xs else take (nat (int (length xs) + k)) xs)"

text \<open>What one answer adds: \<open>limit && remainingLimit\<close> decides whether it is sliced.\<close>

definition taken :: "int option \<Rightarrow> json list \<Rightarrow> json list" where
  "taken remainingLimit rs =
     (case remainingLimit of
        None \<Rightarrow> rs
      | Some r \<Rightarrow> if r \<noteq> 0 then slice0 rs r else rs)"

text \<open>\<open>response.has_more && response.next_cursor ? response.next_cursor : undefined\<close>\<close>

definition nextCursorOf :: "response \<Rightarrow> string option" where
  "nextCursorOf r =
     (if has_more r
      then (case next_cursor r of None \<Rightarrow> None | Some c \<Rightarrow> if c = [] then None else Some c)
      else None)"

text \<open>\<open>limit && allPages.length >= limit\<close>\<close>

definition limitReached :: "int option \<Rightarrow> nat \<Rightarrow> bool" where
  "limitReached limit n = (case limit of None \<Rightarrow> False | Some l \<Rightarrow> l \<noteq> 0 \<and> l \<le> int n)"

text \<open>\<open>!limit || allPages.length < limit\<close>\<close>

definition belowLimit :: "int option \<Rightarrow> nat \<Rightarrow> bool" where
  "belowLimit limit n = (case limit of None \<Rightarrow> True | Some l \<Rightarrow> l = 0 \<or> int n < l)"

text \<open>
  The \<open>do ... while\<close> loop. The tracker may hand out cursors for ever, so the loop
  carries fuel: \<open>None\<close> means that it did not return within \<open>fuel\<close> requests. A
  request that throws ends the fetch with that error. The result is the accumulated
  pages, together with the exchanges in order.
\<close>

fun fetchLoop ::
  "nat \<Rightarrow> tracker \<Rightarrow> string \<Rightarrow> json option \<Rightarrow> int option \<Rightarrow> string option \<Rightarrow>
   json list \<Rightarrow> exchange list \<Rightarrow> (error + json list \<times> exchange list) option" where
  "fetchLoop 0 query databaseId flt limit cursor allPages trace = None"
| "fetchLoop (Suc fuel) query databaseId flt limit cursor allPages trace =
     (let remainingLimit = remainingLimitOf limit (length allPages);
          pageSize = pageSizeOf remainingLimit;
          req = \<lparr>database_id = databaseId, start_cursor = cursor, query_filter = flt,
                 page_size = pageSize\<rparr>
      in case query req of
           Inl e \<Rightarrow> Some (Inl e)
         | Inr response \<Rightarrow>
             (let allPages' = allPages @ taken remainingLimit (results response);
                  cursor' = nextCursorOf response;
                  trace' = trace @ [(length allPages, req, response)]
              in if limitReached limit (length allPages') then Some (Inr (allPages', trace'))
                 else if cursor' \<noteq> None \<and> belowLimit limit (length allPages')
                 then fetchLoop fuel query databaseId flt limit cursor' allPages' trace'
                 else Some (Inr (allPages', trace'))))"

definition fetchAllPages ::
  "nat \<Rightarrow> tracker \<Rightarrow> string \<Rightarrow> json option \<Rightarrow> int option \<Rightarrow>
   (error + json list \<times> exchange list) option" where
  "fetchAllPages fuel query databaseId flt limit =
     fetchLoop fuel query databaseId flt limit None [] []"

text \<open>
  The discipline of a capped fetch, in the specification's words: every request is sent
  for this collection and filter while the accumulated count \<open>n\<close> is below the cap, and
  asks for the lesser of 100 and the remaining cap.
\<close>

fun cappedRequests :: "string \<Rightarrow> json option \<Rightarrow> int \<Rightarrow> nat \<Rightarrow> exchange list \<Rightarrow> bool" where
  "cappedRequests databaseId flt cap n [] = True"
| "cappedRequests databaseId flt cap n ((k, req, resp) # rest) =
     (k = n \<and> int n < cap \<and> page_size req = min 100 (cap - int n)
      \<and> database_id req = databaseId \<and> query_filter req = flt
      \<and> cappedRequests databaseId flt cap (n + length (results resp)) rest)"

text \<open>Everything the tracker sent, in order.\<close>

definition received :: "exchange list \<Rightarrow> json list" where
  "received trace = concat (map (\<lambda>x. results (snd (snd x))) trace)"

text \<open>
  A tracker that ignores the requested page size: two pages of two items and a last
  page of one.
\<close>

definition twoPerPage :: tracker where
  "twoPerPage req =
     (if start_cursor req = None
      then Inr \<lparr>results = [JStr ''a'', JStr ''b''], has_more = True, next_cursor = Some ''c1''\<rparr>
      else if start_cursor req = Some ''c1''
      then Inr \<lparr>results = [JStr ''c'', JStr ''d''], has_more = True, next_cursor = Some ''c2''\<rparr>
      else Inr \<lparr>results = [JStr ''e''], has_more = False, next_cursor = None\<rparr>)"

text \<open>The pages of a fetch that returned.\<close>

definition fetchedPages :: "(error + json list \<times> exchange list) option \<Rightarrow> json list option" where
  "fetchedPages r = (case r of Some (Inr (pages, trace)) \<Rightarrow> Some pages | _ \<Rightarrow> None)"

text \<open>
  A tracker is productive when it answers every request, and every answer either carries
  a result or ends the listing.
\<close>

definition productive :: "tracker \<Rightarrow> bool" where
  "productive query =
     (\<forall>req. \<exists>resp. query req = Inr resp \<and> (results resp \<noteq> [] \<or> nextCursorOf resp = None))"

section \<open>Status history (recordStatusHistory)\<close>

text \<open>
  The fields of a card that the status-history recorder reads. A status that the page
  does not carry (\<open>undefined\<close> or \<open>null\<close>) is \<open>None\<close>; timestamps are milliseconds
  since the epoch.
\<close>

record Card =
  notion_id :: string
  status :: "string option"
  updated_at :: int

text \<open>A stored card: the storage identifier the database generated, and the card.\<close>

record CardDoc =
  doc_id :: string
  doc_card :: Card

record CardStatusHistory =
  card_id :: string
  h_status :: string
  changed_at :: int
  detected_at :: int
  source :: string

record Db =
  cards :: "CardDoc list"
  card_status_history :: "CardStatusHistory list"

text \<open>\<open>db.collection('cards').findOne({ notion_id })\<close>: the first stored card with that key.\<close>

definition findCard :: "string \<Rightarrow> CardDoc list \<Rightarrow> CardDoc option" where
  "findCard nid ds = find (\<lambda>d. notion_id (doc_card d) = nid) ds"

text \<open>
  \<open>findOne({ card_id }, { sort: { changed_at: -1 } })\<close>: a record of that card with the
  greatest \<open>changed_at\<close>. The database leaves the order of equal keys open; the model
  returns the earliest inserted of them.
\<close>

fun maxChangedAt :: "CardStatusHistory list \<Rightarrow> CardStatusHistory option" where
  "maxChangedAt [] = None"
| "maxChangedAt (h # hs) =
     (case maxChangedAt hs of
        None \<Rightarrow> Some h
      | Some g \<Rightarrow> if changed_at h < changed_at g then Some g else Some h)"

definition lastHistoryOf :: "string \<Rightarrow> CardStatusHistory list \<Rightarrow> CardStatusHistory option" where
  "lastHistoryOf cid hs = maxChangedAt (filter (\<lambda>h. card_id h = cid) hs)"

text \<open>\<open>cardDoc?._id?.toString() || card.notion_id\<close>\<close>

definition cardIdOf :: "Card \<Rightarrow> Db \<Rightarrow> string" where
  "cardIdOf c db =
     (case findCard (notion_id c) (cards db) of
        None \<Rightarrow> notion_id c
      | Some d \<Rightarrow> if doc_id d = [] then notion_id c else doc_id d)"

text \<open>\<open>card.status || 'Unknown'\<close>: an absent or empty status is stored as \<open>Unknown\<close>.\<close>

definition statusOrUnknown :: "string option \<Rightarrow> string" where
  "statusOrUnknown s = (case s of None \<Rightarrow> ''Unknown'' | Some t \<Rightarrow> if t = [] then ''Unknown'' else t)"

text \<open>\<open>!lastHistory || lastHistory.status !== card.status\<close>\<close>

definition statusChanged :: "CardStatusHistory option \<Rightarrow> string option \<Rightarrow> bool" where
  "statusChanged lastHistory s =
     (case lastHistory of None \<Rightarrow> True | Some h \<Rightarrow> Some (h_status h) \<noteq> s)"

text \<open>The recorder; \<open>now\<close> is the clock reading of \<open>new Date()\<close>.\<close>

definition recordStatusHistory :: "int \<Rightarrow> Card \<Rightarrow> Db \<Rightarrow> Db" where
  "recordStatusHistory now c db =
     (let cardId = cardIdOf c db;
          lastHistory = lastHistoryOf cardId (card_status_history db)
      in if statusChanged lastHistory (status c)
         then db\<lparr>card_status_history := card_status_history db @
                [\<lparr>card_id = cardId, h_status = statusOrUnknown (status c),
                  changed_at = updated_at c, detected_at = now, source = ''notion''\<rparr>]\<rparr>
         else db)"

text \<open>
  \<open>updateOne({ notion_id }, { $set: card }, { upsert: true })\<close>: the first stored card
  with that key takes the new fields and keeps its storage identifier; when there is
  none, the card is inserted under the identifier \<open>newId\<close> that the database generates.
\<close>

fun updateFirst :: "Card \<Rightarrow> CardDoc list \<Rightarrow> CardDoc list" where
  "updateFirst c [] = []"
| "updateFirst c (d # ds) =
     (if notion_id (doc_card d) = notion_id c then d\<lparr>doc_card := c\<rparr> # ds
      else d # updateFirst c ds)"

definition upsertCard :: "string \<Rightarrow> Card \<Rightarrow> Db \<Rightarrow> Db" where
  "upsertCard newId c db =
     (case findCard (notion_id c) (cards db) of
        None \<Rightarrow> db\<lparr>cards := cards db @ [\<lparr>doc_id = newId, doc_card = c\<rparr>]\<rparr>
      | Some d \<Rightarrow> db\<lparr>cards := updateFirst c (cards db)\<rparr>)"

text \<open>
  What the sync loop does with one transformed card: upsert it, then record its status.
  An upsert request carries the identifier the database would generate, the clock
  reading, and the card.
\<close>

definition upsertAndRecord :: "string \<times> int \<times> Card \<Rightarrow> Db \<Rightarrow> Db" where
  "upsertAndRecord r db =
     (case r of (newId, now, c) \<Rightarrow> recordStatusHistory now c (upsertCard newId c db))"



text \<open>
  The rule as the specification words it: a record is written iff the new status differs
  from the status of the latest record, or there is no record and a status is present.
\<close>

definition spec_writesHistory :: "CardStatusHistory option \<Rightarrow> string option \<Rightarrow> bool" where
  "spec_writesHistory lastHistory s =
     (case lastHistory of None \<Rightarrow> s \<noteq> None | Some h \<Rightarrow> Some (h_status h) \<noteq> s)"

text \<open>A card of entity \<open>nid\<close> carrying status \<open>s\<close>, last edited at \<open>t\<close>.\<close>

definition cardWith :: "string \<Rightarrow> string \<Rightarrow> int \<Rightarrow> Card" where
  "cardWith nid s t = \<lparr>notion_id = nid, status = Some s, updated_at = t\<rparr>"

section \<open>Identity matching (matchTimeDoctorUsers)\<close>

text \<open>
  The fields of a time-tracking user and of a local team member that the matcher reads.
  An optional field that is missing is \<open>None\<close>.
\<close>

record TimeDoctorApiUser =
  td_id :: string
  td_name :: string
  td_email :: "string option"

record TeamMember =
  tm_notion_id :: "string option"
  tm_name :: string
  tm_email :: "string option"

text \<open>
  \<open>s.toLowerCase().trim()\<close> belongs to the engine: it folds every cased letter and
  trims every white space of Unicode. The matcher takes it as a parameter \<open>lowerTrim\<close>, and
  what is proved of the matcher holds for every such function.

  On texts of ASCII characters the engine's functions are the following: the letters A
  to Z are lowered, and the blanks (space, tab, line feed, vertical tab, form feed,
  carriage return) are removed from both ends. The worked examples, which are ASCII,
  run with them.
\<close>

definition lowerChar :: "char \<Rightarrow> char" where
  "lowerChar c =
     (let n = (of_char c :: nat) in if 65 \<le> n \<and> n \<le> 90 then char_of (n + 32) else c)"

definition toLowerCase :: "string \<Rightarrow> string" where
  "toLowerCase s = map lowerChar s"

definition isBlank :: "char \<Rightarrow> bool" where
  "isBlank c = (let n = (of_char c :: nat) in n = 32 \<or> (9 \<le> n \<and> n \<le> 13))"

definition trim :: "string \<Rightarrow> string" where
  "trim s = rev (dropWhile isBlank (rev (dropWhile isBlank s)))"

definition asciiNormalize :: "string \<Rightarrow> string" where
  "asciiNormalize s = trim (toLowerCase s)"

text \<open>
  A \<open>Map\<close> is the list of its entries in insertion order; \<open>set\<close> is \<open>AList.update\<close>,
  \<open>get\<close> is \<open>map_of\<close>, \<open>has\<close> asks whether \<open>get\<close> finds an entry.
\<close>

text \<open>The key under which a member enters an index: its truthy field, normalized.\<close>

definition emailKey :: "(string \<Rightarrow> string) \<Rightarrow> TeamMember \<Rightarrow> string option" where
  "emailKey lowerTrim member =
     (case tm_email member of
        None \<Rightarrow> None
      | Some e \<Rightarrow> if e = [] then None else Some (lowerTrim e))"

definition nameKey :: "(string \<Rightarrow> string) \<Rightarrow> TeamMember \<Rightarrow> string option" where
  "nameKey lowerTrim member =
     (if tm_name member = [] then None else Some (lowerTrim (tm_name member)))"

text \<open>The body of \<open>teamMembers.forEach\<close>: one member enters both indexes.\<close>

definition indexMember ::
  "(string \<Rightarrow> string) \<Rightarrow>
   (string \<times> TeamMember) list \<times> (string \<times> TeamMember) list \<Rightarrow> TeamMember \<Rightarrow>
   (string \<times> TeamMember) list \<times> (string \<times> TeamMember) list" where
  "indexMember lowerTrim ix member =
     (case ix of (teamMemberByEmail, teamMemberByName) \<Rightarrow>
        ((case emailKey lowerTrim member of
            None \<Rightarrow> teamMemberByEmail
          | Some k \<Rightarrow> AList.update k member teamMemberByEmail),
         (case nameKey lowerTrim member of
            None \<Rightarrow> teamMemberByName
          | Some k \<Rightarrow> AList.update k member teamMemberByName)))"

definition buildIndexes ::
  "(string \<Rightarrow> string) \<Rightarrow> TeamMember list \<Rightarrow>
   (string \<times> TeamMember) list \<times> (string \<times> TeamMember) list" where
  "buildIndexes lowerTrim teamMembers = foldl (indexMember lowerTrim) ([], []) teamMembers"

text \<open>\<open>matched && matched.notion_id\<close>: the identifier of a found member, when it has one.\<close>

definition usableId :: "TeamMember option \<Rightarrow> string option" where
  "usableId matched =
     (case matched of
        None \<Rightarrow> None
      | Some member \<Rightarrow>
          (case tm_notion_id member of
             None \<Rightarrow> None
           | Some nid \<Rightarrow> if nid = [] then None else Some nid))"

text \<open>What the two lookups of a candidate yield in given indexes.\<close>

definition emailHit ::
  "(string \<Rightarrow> string) \<Rightarrow> (string \<times> TeamMember) list \<Rightarrow> TimeDoctorApiUser \<Rightarrow> string option" where
  "emailHit lowerTrim bE u =
     (case td_email u of None \<Rightarrow> None
      | Some e \<Rightarrow> if e = [] then None else usableId (map_of bE (lowerTrim e)))"

definition nameHit ::
  "(string \<Rightarrow> string) \<Rightarrow> (string \<times> TeamMember) list \<Rightarrow> TimeDoctorApiUser \<Rightarrow> string option" where
  "nameHit lowerTrim bN u =
     (if td_name u = [] then None else usableId (map_of bN (lowerTrim (td_name u))))"

text \<open>The body of \<open>tdUsers.forEach\<close>: the email lookup, then the name lookup.\<close>

definition matchUser ::
  "(string \<Rightarrow> string) \<Rightarrow> (string \<times> TeamMember) list \<Rightarrow> (string \<times> TeamMember) list \<Rightarrow>
   (string \<times> string) list \<Rightarrow> TimeDoctorApiUser \<Rightarrow> (string \<times> string) list" where
  "matchUser lowerTrim teamMemberByEmail teamMemberByName matchMap tdUser =
     (let byEmail =
            (case td_email tdUser of
               None \<Rightarrow> matchMap
             | Some e \<Rightarrow>
                 if e = [] then matchMap
                 else (case usableId (map_of teamMemberByEmail (lowerTrim e)) of
                         None \<Rightarrow> matchMap
                       | Some nid \<Rightarrow> AList.update (td_id tdUser) nid matchMap))
      in if map_of byEmail (td_id tdUser) = None \<and> td_name tdUser \<noteq> []
         then (case usableId (map_of teamMemberByName (lowerTrim (td_name tdUser))) of
                 None \<Rightarrow> byEmail
               | Some nid \<Rightarrow> AList.update (td_id tdUser) nid byEmail)
         else byEmail)"

definition matchTimeDoctorUsers ::
  "(string \<Rightarrow> string) \<Rightarrow> TimeDoctorApiUser list \<Rightarrow> TeamMember list \<Rightarrow>
   (string \<times> string) list" where
  "matchTimeDoctorUsers lowerTrim tdUsers teamMembers =
     (case buildIndexes lowerTrim teamMembers of (teamMemberByEmail, teamMemberByName) \<Rightarrow>
        foldl (matchUser lowerTrim teamMemberByEmail teamMemberByName) [] tdUsers)"

text \<open>
  The matches in the specification's words. The email match of a candidate is the team
  member who has an email that equals the candidate's email after normalization; the
  name match is the team member whose name equals the candidate's name after
  normalization. When several members share the normalized text, the last of them in
  the list is meant. A candidate without an email has no email match, one without a
  name has no name match.
\<close>

definition spec_emailMatch ::
  "(string \<Rightarrow> string) \<Rightarrow> TeamMember list \<Rightarrow> TimeDoctorApiUser \<Rightarrow> TeamMember option" where
  "spec_emailMatch lowerTrim teamMembers tdUser =
     (case td_email tdUser of
        None \<Rightarrow> None
      | Some e \<Rightarrow>
          if e = [] then None
          else find (\<lambda>m. case tm_email m of
                            None \<Rightarrow> False
                          | Some e' \<Rightarrow> e' \<noteq> [] \<and> lowerTrim e' = lowerTrim e)
                 (rev teamMembers))"

definition spec_nameMatch ::
  "(string \<Rightarrow> string) \<Rightarrow> TeamMember list \<Rightarrow> TimeDoctorApiUser \<Rightarrow> TeamMember option" where
  "spec_nameMatch lowerTrim teamMembers tdUser =
     (if td_name tdUser = [] then None
      else find (\<lambda>m. tm_name m \<noteq> [] \<and> lowerTrim (tm_name m) = lowerTrim (td_name tdUser))
             (rev teamMembers))"

text \<open>
  The rule as the specification words it: the candidate resolves to its email match,
  and to its name match only when it has no email match.
\<close>

definition spec_resolve ::
  "(string \<Rightarrow> string) \<Rightarrow> TeamMember list \<Rightarrow> TimeDoctorApiUser \<Rightarrow> TeamMember option" where
  "spec_resolve lowerTrim teamMembers tdUser =
     (case spec_emailMatch lowerTrim teamMembers tdUser of
        Some m \<Rightarrow> Some m
      | None \<Rightarrow> spec_nameMatch lowerTrim teamMembers tdUser)"

text \<open>
  Two team members, and a candidate whose email is Ann's and whose name is Bob's.
\<close>

definition ann :: TeamMember where
  "ann = \<lparr>tm_notion_id = Some ''n-ann'', tm_name = ''Ann Lee'', tm_email = Some ''Ann@Example.com''\<rparr>"

definition bob :: TeamMember where
  "bob = \<lparr>tm_notion_id = Some ''n-bob'', tm_name = ''Bob Ray'', tm_email = Some ''bob@example.com''\<rparr>"

definition mixedCandidate :: TimeDoctorApiUser where
  "mixedCandidate = \<lparr>td_id = ''td-1'', td_name = '' bob ray '', td_email = Some ''ann@example.com ''\<rparr>"

definition nameOnlyCandidate :: TimeDoctorApiUser where
  "nameOnlyCandidate = \<lparr>td_id = ''td-2'', td_name = ''BOB RAY'', td_email = None\<rparr>"

text \<open>Ann as a team member who has no identifier in the work tracker yet.\<close>

definition annWithoutId :: TeamMember where
  "annWithoutId = ann\<lparr>tm_notion_id := None\<rparr>"

section \<open>Average days late (calculateDaysLateMetrics)\<close>

text \<open>
  A \<open>Date\<close> is its time value in milliseconds since the epoch, or \<open>None\<close> for an
  invalid date (whose time value is NaN). \<open>new Date(text)\<close> is the engine's parser,
  a parameter \<open>parse\<close> of the model.
\<close>

type_synonym jsdate = "int option"











definition msPerDay :: int where
  "msPerDay = 1000 * 60 * 60 * 24"










subsection \<open>A parser for date-only texts\<close>


definition digitOf :: "char \<Rightarrow> int option" where
  "digitOf c = (let n = (of_char c :: nat) in if 48 \<le> n \<and> n \<le> 57 then Some (int n - 48) else None)"

fun digitsValue :: "int \<Rightarrow> string \<Rightarrow> int option" where
  "digitsValue acc [] = Some acc"
| "digitsValue acc (c # cs) =
     (case digitOf c of None \<Rightarrow> None | Some v \<Rightarrow> digitsValue (acc * 10 + v) cs)"








section \<open>The sync pass (syncProjects)\<close>

datatype sync_status = Success | Partial | Failed

text \<open>The record of one pass, as written to the log collection.\<close>

record SyncLog =
  sync_type :: string
  log_status :: sync_status
  records_processed :: nat
  records_failed :: nat
  error_count :: nat
  started_at :: int
  completed_at :: "int option"
  error_message :: "string option"
  metadata :: "(string \<times> json) list"

text \<open>\<open>error.message\<close>\<close>

fun messageOf :: "error \<Rightarrow> string" where
  "messageOf (Error msg) = msg"
| "messageOf TypeError = ''TypeError''"
| "messageOf Unmodelled = ''Unmodelled''"

text \<open>
  What a pass works with. The store and the services behind it are a state of some type
  \<open>'w\<close>. \<open>fetchPages\<close> is the paginated fetch of the projects collection under a
  filter and a cap; \<open>retiredClients\<close> is the set that \<open>getRetiredClientsMap\<close> returns
  (it never throws); \<open>processPage\<close> is the body of the per-page \<open>try\<close>, that is
  transform, upsert and status history: it changes the state and may throw;
  \<open>insertSyncLog\<close> is \<open>db.collection('sync_logs').insertOne\<close>.
\<close>

record 'w SyncEnv =
  fetchPages :: "json option \<Rightarrow> int option \<Rightarrow> error + json list"
  retiredClients :: "string list"
  processPage :: "json \<Rightarrow> 'w \<Rightarrow> error option \<times> 'w"
  insertSyncLog :: "SyncLog \<Rightarrow> 'w \<Rightarrow> error + 'w"
  startedAt :: int
  completedAt :: int

text \<open>
  \<open>findClientProperty(page, extractProperty)\<close>: the client relation of a page, by
  identifier with the name as fallback; \<open>None\<close> when it is empty or not an array.
\<close>

definition findClientProperty :: "json \<Rightarrow> error + json list option" where
  "findClientProperty page =
     bindE (extractProperty page ''em%7D%3B'' ''relation'' (Some ''Client'')) (\<lambda>client.
       case client of
         Value (JArr (x # xs)) \<Rightarrow> Inr (Some (x # xs))
       | _ \<Rightarrow> Inr None)"

text \<open>The post-fetch filter: a page is dropped when one of its clients is retired.\<close>

definition keepPage :: "string list \<Rightarrow> json \<Rightarrow> error + bool" where
  "keepPage retired page =
     bindE (findClientProperty page) (\<lambda>client.
       case client of
         None \<Rightarrow> Inr True
       | Some cids \<Rightarrow>
           Inr (\<not> list_ex (\<lambda>cid. case cid of JStr s \<Rightarrow> s \<in> set retired | _ \<Rightarrow> False) cids))"

text \<open>\<open>pages.filter(f)\<close> where \<open>f\<close> may throw.\<close>

fun filterE :: "('a \<Rightarrow> error + bool) \<Rightarrow> 'a list \<Rightarrow> error + 'a list" where
  "filterE f [] = Inr []"
| "filterE f (x # xs) =
     bindE (f x) (\<lambda>keep. bindE (filterE f xs) (\<lambda>ys. Inr (if keep then x # ys else ys)))"

text \<open>A client scope is given when \<open>clientId\<close> is truthy.\<close>

definition scoped :: "string option \<Rightarrow> bool" where
  "scoped clientId = (case clientId of None \<Rightarrow> False | Some cid \<Rightarrow> cid \<noteq> [])"

text \<open>
  The pages that enter processing: all fetched pages in a scoped pass or when no client
  is retired, otherwise those that pass the filter.
\<close>

definition pagesToProcess :: "string list \<Rightarrow> string option \<Rightarrow> json list \<Rightarrow> error + json list" where
  "pagesToProcess retired clientId pages =
     (if \<not> scoped clientId \<and> retired \<noteq> [] then filterE (keepPage retired) pages
      else Inr pages)"

text \<open>The filter pushed into the fetch query of a scoped pass.\<close>

definition notionFilterOf :: "string option \<Rightarrow> json option" where
  "notionFilterOf clientId =
     (case clientId of
        None \<Rightarrow> None
      | Some cid \<Rightarrow>
          if cid = [] then None
          else Some (JObj [(''property'', JStr ''em%7D%3B''),
                           (''relation'', JObj [(''contains'', JStr cid)])]))"

text \<open>One page in its own \<open>try\<close>: a throw is counted and the loop goes on.\<close>

definition processOne :: "'w SyncEnv \<Rightarrow> SyncLog \<times> 'w \<Rightarrow> json \<Rightarrow> SyncLog \<times> 'w" where
  "processOne env st page =
     (case st of (syncLog, w) \<Rightarrow>
        (case processPage env page w of
           (None, w') \<Rightarrow> (syncLog\<lparr>records_processed := records_processed syncLog + 1\<rparr>, w')
         | (Some e, w') \<Rightarrow>
             (syncLog\<lparr>records_failed := records_failed syncLog + 1,
                      error_count := error_count syncLog + 1\<rparr>, w')))"

text \<open>\<open>for (let i = 0; i < n; i += BATCH_SIZE) pages.slice(i, i + BATCH_SIZE)\<close>\<close>

function batchesOf :: "nat \<Rightarrow> 'a list \<Rightarrow> 'a list list" where
  "batchesOf n xs = (if n = 0 \<or> xs = [] then [] else take n xs # batchesOf n (drop n xs))"
  by pat_completeness auto
termination
  by (relation "measure (\<lambda>(n, xs). length xs)") auto

declare batchesOf.simps [simp del]

definition BATCH_SIZE :: nat where
  "BATCH_SIZE = 50"

definition processBatch :: "'w SyncEnv \<Rightarrow> SyncLog \<times> 'w \<Rightarrow> json list \<Rightarrow> SyncLog \<times> 'w" where
  "processBatch env st batch = foldl (processOne env) st batch"

definition processInBatches :: "'w SyncEnv \<Rightarrow> SyncLog \<times> 'w \<Rightarrow> json list \<Rightarrow> SyncLog \<times> 'w" where
  "processInBatches env st filteredPages =
     foldl (processBatch env) st (batchesOf BATCH_SIZE filteredPages)"

definition initialLog :: "'w SyncEnv \<Rightarrow> string option \<Rightarrow> SyncLog" where
  "initialLog env clientId =
     \<lparr>sync_type = ''incremental'', log_status = Success, records_processed = 0,
      records_failed = 0, error_count = 0, started_at = startedAt env, completed_at = None,
      error_message = None,
      metadata = (case clientId of
                    None \<Rightarrow> []
                  | Some cid \<Rightarrow> if cid = [] then [] else [(''client_id'', JStr cid)])\<rparr>"

text \<open>\<open>syncLog.metadata.retired_clients_count = retiredClients.size\<close> in an unscoped pass.\<close>

definition noteRetired :: "'w SyncEnv \<Rightarrow> string option \<Rightarrow> SyncLog \<Rightarrow> SyncLog" where
  "noteRetired env clientId syncLog =
     (if \<not> scoped clientId \<and> retiredClients env \<noteq> []
      then syncLog\<lparr>metadata := AList.update ''retired_clients_count''
                      (JNum (int (length (remdups (retiredClients env))))) (metadata syncLog)\<rparr>
      else syncLog)"

text \<open>\<open>syncLog.status = syncLog.records_failed > 0 ? 'partial' : 'success'\<close>\<close>

definition finalize :: "'w SyncEnv \<Rightarrow> SyncLog \<Rightarrow> SyncLog" where
  "finalize env syncLog =
     syncLog\<lparr>completed_at := Some (completedAt env),
             log_status := (if 0 < records_failed syncLog then Partial else Success)\<rparr>"

text \<open>
  The \<open>try\<close> block. It returns the error it threw, if any, with the log record and the
  state as they stand at that moment: the \<open>catch\<close> block goes on from there.
\<close>

definition tryBlock ::
  "'w SyncEnv \<Rightarrow> string option \<Rightarrow> int option \<Rightarrow> 'w \<Rightarrow> error option \<times> SyncLog \<times> 'w" where
  "tryBlock env clientId limit w =
     (let syncLog = noteRetired env clientId (initialLog env clientId)
      in case fetchPages env (notionFilterOf clientId) limit of
           Inl e \<Rightarrow> (Some e, syncLog, w)
         | Inr pages \<Rightarrow>
             (case pagesToProcess (retiredClients env) clientId pages of
                Inl e \<Rightarrow> (Some e, syncLog, w)
              | Inr filteredPages \<Rightarrow>
                  (case processInBatches env (syncLog, w) filteredPages of
                     (counted, w1) \<Rightarrow>
                       (case insertSyncLog env (finalize env counted) w1 of
                          Inl e \<Rightarrow> (Some e, finalize env counted, w1)
                        | Inr w2 \<Rightarrow> (None, finalize env counted, w2)))))"

text \<open>
  The whole function: the \<open>catch\<close> block marks the record as failed, writes it, and
  throws the caught error again; when that write throws too, its error is the one the
  caller gets.
\<close>

definition syncProjects ::
  "'w SyncEnv \<Rightarrow> string option \<Rightarrow> int option \<Rightarrow> 'w \<Rightarrow> (error + SyncLog) \<times> 'w" where
  "syncProjects env clientId limit w =
     (case tryBlock env clientId limit w of
        (None, syncLog, w') \<Rightarrow> (Inr syncLog, w')
      | (Some e, syncLog, w') \<Rightarrow>
          (case insertSyncLog env
                  (syncLog\<lparr>log_status := Failed, error_message := Some (messageOf e),
                           completed_at := Some (completedAt env)\<rparr>) w' of
             Inl e2 \<Rightarrow> (Inl e2, w')
           | Inr w'' \<Rightarrow> (Inl e, w'')))"

text \<open>
  The pages of a run whose processing throws, found by replaying the pages one after
  the other from the state \<open>w\<close>.
\<close>

fun failedPages :: "'w SyncEnv \<Rightarrow> 'w \<Rightarrow> json list \<Rightarrow> json list" where
  "failedPages env w [] = []"
| "failedPages env w (page # rest) =
     (case processPage env page w of
        (None, w') \<Rightarrow> failedPages env w' rest
      | (Some e, w') \<Rightarrow> page # failedPages env w' rest)"

text \<open>The state after the pages of a run.\<close>

fun stateAfter :: "'w SyncEnv \<Rightarrow> 'w \<Rightarrow> json list \<Rightarrow> 'w" where
  "stateAfter env w [] = w"
| "stateAfter env w (page # rest) = stateAfter env (snd (processPage env page w)) rest"

text \<open>
  The record a completed pass over \<open>n\<close> pages with \<open>k\<close> failures must end with, in the
  specification's words: \<open>n - k\<close> processed, \<open>k\<close> failed, status partial when
  \<open>k > 0\<close> and success when \<open>k = 0\<close>.
\<close>

definition spec_finalLog :: "'w SyncEnv \<Rightarrow> string option \<Rightarrow> nat \<Rightarrow> nat \<Rightarrow> SyncLog" where
  "spec_finalLog env clientId n k =
     (noteRetired env clientId (initialLog env clientId))
       \<lparr>records_processed := n - k, records_failed := k, error_count := k,
        completed_at := Some (completedAt env),
        log_status := (if 0 < k then Partial else Success)\<rparr>"

subsection \<open>A small store to run passes on\<close>

text \<open>
  The state is the database of the status history and the log collection. A page is processed
  by reading its identifier and its status (a select, by identifier with the name as
  fallback), upserting the card and recording its status; a page without a property
  bag makes the extraction throw, as it makes \<open>transformProjectPage\<close> throw.
\<close>

definition exampleProcess :: "json \<Rightarrow> Db \<times> SyncLog list \<Rightarrow> error option \<times> Db \<times> SyncLog list" where
  "exampleProcess page w =
     (case extractProperty page ''%7BjDe'' ''select'' (Some ''Status'') of
        Inl e \<Rightarrow> (Some e, w)
      | Inr st \<Rightarrow>
          (let nid = (case getq page ''id'' of JStr s \<Rightarrow> s | _ \<Rightarrow> []);
               c = \<lparr>notion_id = nid,
                    status = (case st of Value (JStr s) \<Rightarrow> Some s | _ \<Rightarrow> None),
                    updated_at = 0\<rparr>
           in (None, upsertAndRecord (''oid-'' @ nid, 0, c) (fst w), snd w)))"

definition projectPage :: "string \<Rightarrow> string \<Rightarrow> json" where
  "projectPage nid st =
     JObj [(''id'', JStr nid),
           (''properties'', JObj [(''Status'', JObj [(''select'', JObj [(''name'', JStr st)])])])]"

definition brokenPage :: json where
  "brokenPage = JObj [(''id'', JStr ''p-broken'')]"

definition emptyWorld :: "Db \<times> SyncLog list" where
  "emptyWorld = (\<lparr>cards = [], card_status_history = []\<rparr>, [])"

text \<open>A pass over three pages, the second of them broken; the log write works.\<close>

definition exampleEnv :: "(Db \<times> SyncLog list) SyncEnv" where
  "exampleEnv =
     \<lparr>fetchPages = (\<lambda>flt limit. Inr [projectPage ''p1'' ''QI'', brokenPage,
                                        projectPage ''p2'' ''Done'']),
      retiredClients = [],
      processPage = exampleProcess,
      insertSyncLog = (\<lambda>syncLog w. Inr (fst w, snd w @ [syncLog])),
      startedAt = 1, completedAt = 2\<rparr>"

text \<open>A pass over two good pages in which every write to the log collection throws.\<close>

definition logFailEnv :: "(Db \<times> SyncLog list) SyncEnv" where
  "logFailEnv =
     \<lparr>fetchPages = (\<lambda>flt limit. Inr [projectPage ''p1'' ''QI'', projectPage ''p2'' ''Done'']),
      retiredClients = [],
      processPage = exampleProcess,
      insertSyncLog = (\<lambda>syncLog w. Inl (Error ''sync_logs write failed'')),
      startedAt = 1, completedAt = 2\<rparr>"

text \<open>
  A project page that belongs to a client, and a pass without a scope over three such
  pages while the client of the second one is retired; the log write works.
\<close>

definition clientPage :: "string \<Rightarrow> string \<Rightarrow> string \<Rightarrow> json" where
  "clientPage nid st cid =
     JObj [(''id'', JStr nid),
           (''properties'', JObj
              [(''Status'', JObj [(''select'', JObj [(''name'', JStr st)])]),
               (''Client'', JObj [(''relation'', JArr [JObj [(''id'', JStr cid)]])])])]"

definition retiredEnv :: "(Db \<times> SyncLog list) SyncEnv" where
  "retiredEnv =
     \<lparr>fetchPages = (\<lambda>flt limit. Inr [clientPage ''p1'' ''QI'' ''c-live'',
                                        clientPage ''p2'' ''Done'' ''c-retired'',
                                        clientPage ''p3'' ''Done'' ''c-live'']),
      retiredClients = [''c-retired''],
      processPage = exampleProcess,
      insertSyncLog = (\<lambda>syncLog w. Inr (fst w, snd w @ [syncLog])),
      startedAt = 1, completedAt = 2\<rparr>"

section \<open>Ranged worklog fetch (fetchTimeDoctorWorklogs)\<close>

text \<open>\<open>typeof v\<close>\<close>

fun typeOf :: "json \<Rightarrow> string" where
  "typeOf JUndefined = ''undefined''"
| "typeOf JNull = ''object''"
| "typeOf (JBool b) = ''boolean''"
| "typeOf (JNum n) = ''number''"
| "typeOf (JStr s) = ''string''"
| "typeOf (JArr xs) = ''object''"
| "typeOf (JObj kvs) = ''object''"

text \<open>\<open>s.startsWith(t)\<close> and \<open>s.includes(t)\<close>\<close>

fun startsWith :: "string \<Rightarrow> string \<Rightarrow> bool" where
  "startsWith s [] = True"
| "startsWith [] (c # t) = False"
| "startsWith (d # s) (c # t) = (d = c \<and> startsWith s t)"

fun includesText :: "string \<Rightarrow> string \<Rightarrow> bool" where
  "includesText [] t = (t = [])"
| "includesText (c # s) t = (startsWith (c # s) t \<or> includesText s t)"

text \<open>\<open>/^\d+$/.test(k)\<close>\<close>

definition isNumericKey :: "string \<Rightarrow> bool" where
  "isNumericKey k = (k \<noteq> [] \<and> list_all (\<lambda>c. digitOf c \<noteq> None) k)"

text \<open>
  \<open>Object.keys\<close> lists the keys that are array indices first, in ascending order, and
  then the other keys in insertion order. An array index is a numeric key without a
  leading zero, below \<open>2^32 - 1\<close>. The keys of an object are taken to be distinct.
\<close>

definition indexValue :: "string \<Rightarrow> nat option" where
  "indexValue k =
     (if isNumericKey k \<and> (k = ''0'' \<or> hd k \<noteq> CHR ''0'')
      then (case digitsValue 0 k of
              None \<Rightarrow> None
            | Some v \<Rightarrow> if v < 4294967295 then Some (nat v) else None)
      else None)"

definition objectKeys :: "(string \<times> json) list \<Rightarrow> string list" where
  "objectKeys kvs =
     (let ks = map fst kvs
      in sort_key (\<lambda>k. case indexValue k of None \<Rightarrow> 0 | Some i \<Rightarrow> i)
           (filter (\<lambda>k. indexValue k \<noteq> None) ks)
         @ filter (\<lambda>k. indexValue k = None) ks)"

text \<open>
  \<open>Object.keys(v)\<close> of a value that is an object by \<open>typeof\<close> and not \<open>null\<close>: the
  keys of an array are its indices.
\<close>

fun keysOf :: "json \<Rightarrow> string list" where
  "keysOf (JObj kvs) = objectKeys kvs"
| "keysOf (JArr xs) = map natToString [0..<length xs]"
| "keysOf v = []"

text \<open>\<open>Object.keys(v).map(k => v[k])\<close>\<close>

fun valuesByKey :: "json \<Rightarrow> json list" where
  "valuesByKey (JObj kvs) =
     map (\<lambda>k. case map_of kvs k of None \<Rightarrow> JUndefined | Some v \<Rightarrow> v) (objectKeys kvs)"
| "valuesByKey (JArr xs) = xs"
| "valuesByKey v = []"

text \<open>\<open>keys.length > 0 && keys.every(k => /^\d+$/.test(k))\<close>\<close>

definition arrayLike :: "json \<Rightarrow> bool" where
  "arrayLike v = (keysOf v \<noteq> [] \<and> list_all isNumericKey (keysOf v))"

text \<open>\<open>xs.flat()\<close>: the elements that are arrays are spread, one level deep.\<close>

definition flat :: "json list \<Rightarrow> json list" where
  "flat xs = concat (map (\<lambda>x. case x of JArr ys \<Rightarrow> ys | _ \<Rightarrow> [x]) xs)"

text \<open>
  The request that the function sends: the company, the window and the users of the
  query string, the token of the header. The window is kept as the two time values
  whose ISO texts the query carries.
\<close>

record TimeDoctorConfig =
  apiToken :: string
  companyId :: string

record worklogRequest =
  req_token :: string
  req_company :: string
  req_from :: int
  req_to :: int
  req_user :: "string option"

text \<open>
  What comes back: \<open>fetch\<close> throws, or the response is not ok (status and status
  text), or it is ok and \<open>response.json()\<close> gives the payload or throws.
\<close>

datatype httpResult =
    NetworkFailure error
  | NotOk int string
  | Ok "error + json"

text \<open>
  The services outside the function: the time tracker, \<open>JSON.parse\<close> and
  \<open>parseFloat\<close> (\<open>None\<close> is NaN).
\<close>

record TdEnv =
  worklogApi :: "worklogRequest \<Rightarrow> httpResult"
  jsonParse :: "string \<Rightarrow> error + json"
  parseFloat :: "string \<Rightarrow> int option"

text \<open>One worklog as the function returns it. A time of \<open>None\<close> is NaN.\<close>

record TimeDoctorApiWorklog =
  w_userId :: "string option"
  w_projectId :: "string option"
  w_time :: "int option"
  w_start :: json
  w_projectName :: json
  w_taskName :: json
  w_mode :: json

text \<open>
  The check of an in-band error: \<open>data?.error\<close> truthy makes the function throw, a
  range error when the text includes \<open>range too wide\<close> or \<open>mergeRange\<close>. Only a
  string and an array have \<open>includes\<close>; on an array it looks for an equal element.
\<close>

definition mentionsRange :: "json \<Rightarrow> error + bool" where
  "mentionsRange errorMsg =
     (case errorMsg of
        JStr s \<Rightarrow> Inr (includesText s ''range too wide'' \<or> includesText s ''mergeRange'')
      | JArr xs \<Rightarrow> Inr (JStr ''range too wide'' \<in> set xs \<or> JStr ''mergeRange'' \<in> set xs)
      | _ \<Rightarrow> Inl TypeError)"

definition checkApiError :: "json \<Rightarrow> error + unit" where
  "checkApiError data =
     (let errorMsg = getq data ''error''
      in if truthy errorMsg
         then bindE (mentionsRange errorMsg) (\<lambda>range.
                if range then Inl (Error (''Time Doctor API range error: '' @ jsToString errorMsg))
                else Inl (Error (''Time Doctor API error: '' @ jsToString errorMsg)))
         else Inr ())"

text \<open>\<open>Array.isArray(parsed) ? parsed : []\<close>\<close>

definition arrayOrEmpty :: "json \<Rightarrow> json list" where
  "arrayOrEmpty v = (case v of JArr xs \<Rightarrow> xs | _ \<Rightarrow> [])"

text \<open>The callback that converts the array-like items of \<open>data.data\<close>.\<close>

definition convertItem :: "json \<Rightarrow> json" where
  "convertItem item =
     (if typeOf item = ''object'' \<and> item \<noteq> JNull \<and> arrayLike item
      then JArr (valuesByKey item)
      else item)"

text \<open>
  \<open>data.data\<close> is an array: a single JSON text is parsed (and kept as it is when the
  parse throws); an array of array-like items is converted and flattened; anything else
  is taken as it is.
\<close>

definition fromDataArray :: "TdEnv \<Rightarrow> json list \<Rightarrow> json list" where
  "fromDataArray env xs =
     (case xs of
        [JStr s] \<Rightarrow>
          if startsWith (trim s) ''[''
          then (case jsonParse env s of Inl e \<Rightarrow> xs | Inr parsed \<Rightarrow> arrayOrEmpty parsed)
          else xs
      | testEntry # _ \<Rightarrow>
          if truthy testEntry \<and> typeOf testEntry = ''object''
             \<and> list_all isNumericKey (keysOf testEntry)
          then flat (map convertItem xs)
          else xs
      | [] \<Rightarrow> xs)"

text \<open>The payload under \<open>data.data\<close>, which is truthy here.\<close>

definition fromData :: "TdEnv \<Rightarrow> json \<Rightarrow> json list" where
  "fromData env d =
     (case d of
        JStr s \<Rightarrow> (case jsonParse env s of Inl e \<Rightarrow> [] | Inr parsed \<Rightarrow> arrayOrEmpty parsed)
      | JArr xs \<Rightarrow> fromDataArray env xs
      | JObj kvs \<Rightarrow> if arrayLike (JObj kvs) then valuesByKey (JObj kvs) else []
      | _ \<Rightarrow> [])"

text \<open>\<open>data?.k && Array.isArray(data.k)\<close>\<close>

definition arrayUnder :: "json \<Rightarrow> string \<Rightarrow> json list option" where
  "arrayUnder data k = (case getq data k of JArr xs \<Rightarrow> Some xs | _ \<Rightarrow> None)"

text \<open>All recognized response shapes, in the source's order.\<close>

definition normalizePayload :: "TdEnv \<Rightarrow> json \<Rightarrow> json list" where
  "normalizePayload env data =
     (case data of
        JArr xs \<Rightarrow> xs
      | _ \<Rightarrow>
          if truthy (getq data ''data'') then fromData env (getq data ''data'')
          else (case arrayUnder data ''results'' of
                  Some xs \<Rightarrow> xs
                | None \<Rightarrow>
                    (case arrayUnder data ''items'' of
                       Some xs \<Rightarrow> xs
                     | None \<Rightarrow>
                         (case arrayUnder data ''entries'' of
                            Some xs \<Rightarrow> xs
                          | None \<Rightarrow> []))))"

text \<open>
  When the first entry is a string, every string entry is parsed; an entry whose parse
  throws, or gives \<open>null\<close>, is dropped, and so is an entry that is \<open>null\<close> itself.
\<close>

definition parseEntry :: "TdEnv \<Rightarrow> json \<Rightarrow> json" where
  "parseEntry env entry =
     (case entry of
        JStr s \<Rightarrow> (case jsonParse env s of Inl e \<Rightarrow> JNull | Inr v \<Rightarrow> v)
      | _ \<Rightarrow> entry)"

definition parseEntries :: "TdEnv \<Rightarrow> json list \<Rightarrow> json list" where
  "parseEntries env worklogData =
     (case worklogData of
        JStr s # _ \<Rightarrow> filter (\<lambda>entry. entry \<noteq> JNull) (map (parseEntry env) worklogData)
      | _ \<Rightarrow> worklogData)"

text \<open>\<open>a || b || c || d\<close>\<close>

fun firstTruthyOf :: "json list \<Rightarrow> json \<Rightarrow> json" where
  "firstTruthyOf [] final = final"
| "firstTruthyOf (v # vs) final = (if truthy v then v else firstTruthyOf vs final)"

text \<open>\<open>id ? String(id) : null\<close>\<close>

definition stringOrNull :: "json \<Rightarrow> string option" where
  "stringOrNull v = (if truthy v then Some (jsToString v) else None)"

text \<open>The time of an entry: a string goes through \<open>parseFloat\<close>, a number is taken, anything else is 0.\<close>

definition timeOf :: "TdEnv \<Rightarrow> json \<Rightarrow> int option" where
  "timeOf env timeValue =
     (case timeValue of
        JStr s \<Rightarrow> parseFloat env s
      | JNum n \<Rightarrow> Some n
      | _ \<Rightarrow> Some 0)"

text \<open>The mapping of one entry; reading a field of \<open>null\<close> or \<open>undefined\<close> throws.\<close>

definition mapEntry :: "TdEnv \<Rightarrow> json \<Rightarrow> error + TimeDoctorApiWorklog" where
  "mapEntry env entry =
     (if nullish entry then Inl TypeError
      else Inr
        \<lparr>w_userId = stringOrNull (firstTruthyOf
             [getq entry ''userId'', getq entry ''user_id'', getq (getq entry ''user'') ''id'']
             JNull),
         w_projectId = stringOrNull (firstTruthyOf
             [getq entry ''projectId'', getq entry ''project_id'',
              getq (getq entry ''project'') ''id''] JNull),
         w_time = timeOf env (firstTruthyOf
             [getq entry ''time'', getq entry ''totalSec'', getq entry ''total_sec'',
              getq entry ''total_time''] (JNum 0)),
         w_start = firstTruthyOf
             [getq entry ''start'', getq entry ''period_start'', getq entry ''date'',
              getq entry ''created_at''] (getq entry ''timestamp''),
         w_projectName = firstTruthyOf [getq entry ''projectName'', getq entry ''project_name'']
             (getq (getq entry ''project'') ''name''),
         w_taskName = firstTruthyOf [getq entry ''taskName'', getq entry ''task_name'']
             (getq (getq entry ''task'') ''name''),
         w_mode = firstTruthyOf [getq entry ''mode''] (getq entry ''tracking_mode'')\<rparr>)"

text \<open>The filter: a user, a project, and a time that is a positive number.\<close>

definition nonBlank :: "string option \<Rightarrow> bool" where
  "nonBlank s = (case s of None \<Rightarrow> False | Some t \<Rightarrow> t \<noteq> [] \<and> trim t \<noteq> [])"

definition isValid :: "TimeDoctorApiWorklog \<Rightarrow> bool" where
  "isValid w =
     (nonBlank (w_userId w) \<and> nonBlank (w_projectId w)
      \<and> (case w_time w of None \<Rightarrow> False | Some t \<Rightarrow> 0 < t))"

text \<open>\<open>userIds && userIds.length > 0\<close>: the users joined by commas.\<close>

definition userParam :: "string list option \<Rightarrow> string option" where
  "userParam userIds =
     (case userIds of
        None \<Rightarrow> None
      | Some [] \<Rightarrow> None
      | Some (u # us) \<Rightarrow> Some (joinWith '','' (u # us)))"

definition requestOf ::
  "TimeDoctorConfig \<Rightarrow> int \<Rightarrow> int \<Rightarrow> string list option \<Rightarrow> worklogRequest" where
  "requestOf config fromDate toDate userIds =
     \<lparr>req_token = apiToken config, req_company = companyId config,
      req_from = fromDate, req_to = toDate, req_user = userParam userIds\<rparr>"

text \<open>The body of the \<open>try\<close> block.\<close>

definition fetchBody ::
  "TdEnv \<Rightarrow> TimeDoctorConfig \<Rightarrow> int \<Rightarrow> int \<Rightarrow> string list option \<Rightarrow>
   error + TimeDoctorApiWorklog list" where
  "fetchBody env config fromDate toDate userIds =
     (case worklogApi env (requestOf config fromDate toDate userIds) of
        NetworkFailure e \<Rightarrow> Inl e
      | NotOk code statusText \<Rightarrow>
          Inl (Error (''Time Doctor API error: '' @ intToString code @ '' '' @ statusText))
      | Ok body \<Rightarrow>
          bindE body (\<lambda>data.
          bindE (checkApiError data) (\<lambda>u.
          bindE (mapE (mapEntry env) (parseEntries env (normalizePayload env data)))
            (\<lambda>mappedWorklogs. Inr (filter isValid mappedWorklogs)))))"

text \<open>
  The function. The two \<open>toISOString()\<close> calls stand before the \<open>try\<close>: on an invalid
  date they throw a RangeError to the caller. Everything else is inside the \<open>try\<close>,
  whose \<open>catch\<close> returns the empty array.
\<close>

definition fetchTimeDoctorWorklogs ::
  "TdEnv \<Rightarrow> TimeDoctorConfig \<Rightarrow> jsdate \<Rightarrow> jsdate \<Rightarrow> string list option \<Rightarrow>
   error + TimeDoctorApiWorklog list" where
  "fetchTimeDoctorWorklogs env config startDate endDate userIds =
     (case startDate of
        None \<Rightarrow> Inl (Error ''Invalid time value'')
      | Some fromDate \<Rightarrow>
          (case endDate of
             None \<Rightarrow> Inl (Error ''Invalid time value'')
           | Some toDate \<Rightarrow>
               (case fetchBody env config fromDate toDate userIds of
                  Inl e \<Rightarrow> Inr []
                | Inr validWorklogs \<Rightarrow> Inr validWorklogs)))"

section \<open>Chunked range fetch (syncTimeDoctorWorklogs)\<close>

text \<open>
  The fetching part of \<open>syncTimeDoctorWorklogs\<close>, up to the aggregate \<open>allWorklogs\<close>.
  \<open>d.setDate(d.getDate() + n)\<close> moves a date by \<open>n\<close> calendar days, which is
  \<open>n\<close> times 24 hours in a process whose time zone has no clock changes (UTC).
\<close>

definition CHUNK_DAYS :: int where
  "CHUNK_DAYS = 7"

definition addDays :: "int \<Rightarrow> int \<Rightarrow> int" where
  "addDays d n = d + n * msPerDay"

text \<open>\<open>Math.ceil(a / b)\<close> for a positive \<open>b\<close>.\<close>

definition ceilDiv :: "int \<Rightarrow> int \<Rightarrow> int" where
  "ceilDiv a b = - ((- a) div b)"

text \<open>\<open>error.message?.includes('range too wide') || error.message?.includes('mergeRange')\<close>\<close>

definition isRangeError :: "error \<Rightarrow> bool" where
  "isRangeError e =
     (includesText (messageOf e) ''range too wide'' \<or> includesText (messageOf e) ''mergeRange'')"

text \<open>
  The aggregate so far, and the windows for which the worklogs were requested, in order.
\<close>

type_synonym fetched = "TimeDoctorApiWorklog list \<times> (int \<times> int) list"

text \<open>One window: its worklogs are appended; a throw is handed to the caller's \<open>catch\<close>.\<close>

definition fetchWindow ::
  "TdEnv \<Rightarrow> TimeDoctorConfig \<Rightarrow> string list \<Rightarrow> int \<Rightarrow> int \<Rightarrow> fetched \<Rightarrow> error + fetched" where
  "fetchWindow env config userIds fromDate toDate acc =
     (case fetchTimeDoctorWorklogs env config (Some fromDate) (Some toDate) (Some userIds) of
        Inl e \<Rightarrow> Inl e
      | Inr ws \<Rightarrow> Inr (fst acc @ ws, snd acc @ [(fromDate, toDate)]))"

text \<open>
  The \<open>while\<close> loop of the \<open>catch\<close> block: the window again in steps of 3 days; a step
  that throws is logged and skipped.
\<close>

function smallChunks ::
  "TdEnv \<Rightarrow> TimeDoctorConfig \<Rightarrow> string list \<Rightarrow> int \<Rightarrow> int \<Rightarrow> fetched \<Rightarrow> fetched" where
  "smallChunks env config userIds smallChunkStart chunkEndDate acc =
     (if smallChunkStart < chunkEndDate
      then (let smallChunkEnd = addDays smallChunkStart 3;
                finalChunkEnd = (if chunkEndDate < smallChunkEnd then chunkEndDate
                                 else smallChunkEnd);
                acc' = (case fetchWindow env config userIds smallChunkStart finalChunkEnd acc of
                          Inl smallError \<Rightarrow> (fst acc, snd acc @ [(smallChunkStart, finalChunkEnd)])
                        | Inr a \<Rightarrow> a)
            in smallChunks env config userIds (addDays smallChunkStart 3) chunkEndDate acc')
      else acc)"
  by pat_completeness auto
termination
  by (relation "measure (\<lambda>(env, config, userIds, s, e, acc). nat (e - s))")
    (auto simp: addDays_def msPerDay_def)

declare smallChunks.simps [simp del]

text \<open>
  The \<open>for\<close> loop over the primary windows, \<open>n\<close> iterations to go. The next window
  starts one day after the end of this one.
\<close>

fun chunkLoop ::
  "nat \<Rightarrow> TdEnv \<Rightarrow> TimeDoctorConfig \<Rightarrow> string list \<Rightarrow> int \<Rightarrow> int \<Rightarrow> fetched \<Rightarrow> fetched" where
  "chunkLoop 0 env config userIds endDate currentStart acc = acc"
| "chunkLoop (Suc n) env config userIds endDate currentStart acc =
     (let chunkEnd = addDays currentStart CHUNK_DAYS;
          chunkEndDate = (if endDate < chunkEnd then endDate else chunkEnd);
          acc' = (case fetchWindow env config userIds currentStart chunkEndDate acc of
                    Inr a \<Rightarrow> a
                  | Inl e \<Rightarrow>
                      if isRangeError e
                      then smallChunks env config userIds currentStart chunkEndDate
                             (fst acc, snd acc @ [(currentStart, chunkEndDate)])
                      else (fst acc, snd acc @ [(currentStart, chunkEndDate)]))
      in chunkLoop n env config userIds endDate (addDays chunkEndDate 1) acc')"

text \<open>
  The number of primary windows, the early return when no user is known, and the
  RangeError of \<open>toISOString()\<close> on an invalid date before the loop.
\<close>

definition chunksOf :: "int \<Rightarrow> int \<Rightarrow> nat" where
  "chunksOf startDate endDate = nat (ceilDiv (ceilDiv (endDate - startDate) msPerDay) CHUNK_DAYS)"

definition fetchAllWorklogs ::
  "TdEnv \<Rightarrow> TimeDoctorConfig \<Rightarrow> jsdate \<Rightarrow> jsdate \<Rightarrow> string list \<Rightarrow> error + fetched" where
  "fetchAllWorklogs env config startDate endDate userIds =
     (if userIds = [] then Inr ([], [])
      else (case (startDate, endDate) of
              (Some s, Some e) \<Rightarrow>
                Inr (chunkLoop (chunksOf s e) env config userIds e s ([], []))
            | _ \<Rightarrow> Inl (Error ''Invalid time value'')))"

text \<open>
  The 3-day sub-windows by which the specification has a primary window retried after
  a range error: from its start in steps of 3 days, the last one cut at its end.
\<close>

function spec_subWindows :: "int \<Rightarrow> int \<Rightarrow> (int \<times> int) list" where
  "spec_subWindows s e =
     (if s < e then (s, if e < addDays s 3 then e else addDays s 3) # spec_subWindows (addDays s 3) e
      else [])"
  by pat_completeness auto
termination
  by (relation "measure (\<lambda>(s, e). nat (e - s))") (auto simp: addDays_def msPerDay_def)

declare spec_subWindows.simps [simp del]

subsection \<open>A tracker with a range limit\<close>

text \<open>
  Days are counted from the epoch. The tracker answers a window with one worklog that
  starts at the beginning of the window, an empty window with nothing, and the window
  that begins on day 108 with an in-band range error when it is wider than 3 days.
\<close>

definition day :: "int \<Rightarrow> int" where
  "day n = n * msPerDay"

definition worklogAt :: "int \<Rightarrow> json" where
  "worklogAt t =
     JObj [(''userId'', JStr ''u1''), (''projectId'', JStr ''p1''), (''time'', JNum 3600),
           (''start'', JNum t)]"

definition rangeLimitedApi :: "worklogRequest \<Rightarrow> httpResult" where
  "rangeLimitedApi req =
     (if req_from req = day 108 \<and> day 3 < req_to req - req_from req
      then Ok (Inr (JObj [(''error'', JStr ''mergeRange: range too wide'')]))
      else if req_to req \<le> req_from req then Ok (Inr (JArr []))
      else Ok (Inr (JArr [worklogAt (req_from req)])))"

definition rangeLimitedEnv :: TdEnv where
  "rangeLimitedEnv =
     \<lparr>worklogApi = rangeLimitedApi,
      jsonParse = (\<lambda>s. Inl (Error ''Unexpected token'')),
      parseFloat = (\<lambda>s. None)\<rparr>"

definition exampleConfig :: TimeDoctorConfig where
  "exampleConfig = \<lparr>apiToken = ''token'', companyId = ''company''\<rparr>"

text \<open>A tracker that is down, and one that has no work logged.\<close>

definition downEnv :: TdEnv where
  "downEnv = rangeLimitedEnv\<lparr>worklogApi := (\<lambda>req. NetworkFailure (Error ''fetch failed''))\<rparr>"

definition idleEnv :: TdEnv where
  "idleEnv = rangeLimitedEnv\<lparr>worklogApi := (\<lambda>req. Ok (Inr (JArr [])))\<rparr>"

text \<open>The worklog that the function makes of \<open>worklogAt t\<close>.\<close>

definition mappedAt :: "int \<Rightarrow> TimeDoctorApiWorklog" where
  "mappedAt t =
     \<lparr>w_userId = Some ''u1'', w_projectId = Some ''p1'', w_time = Some 3600,
      w_start = JNum t, w_projectName = JUndefined, w_taskName = JUndefined,
      w_mode = JUndefined\<rparr>"

chapter \<open>Proofs\<close>

section \<open>Property extraction: proofs\<close>

lemma mapE_total:
  "list_all (\<lambda>x. f x = Inr (g x)) xs \<Longrightarrow> mapE f xs = Inr (map g xs)"
  by (induction xs) (simp_all add: bindE_def)

lemma segmentText_wellformed:
  "isTextSegment segment \<Longrightarrow> segmentText segment = Inr (JStr (plainTextOf segment))"
  by (cases segment)
    (auto simp: isTextSegment_def segmentText_def plainTextOf_def bindE_def orElse_def
      split: option.splits json.splits)

lemma joinEmpty_strings: "joinEmpty (map (\<lambda>x. JStr (f x)) xs) = concat (map f xs)"
  by (induction xs) (simp_all add: joinEmpty_def)

lemma concatSegments_wellformed:
  assumes "list_all isTextSegment segs"
  shows "concatSegments (JArr segs) = Inr (Value (JStr (concat (map plainTextOf segs))))"
proof (cases segs)
  case Nil
  then show ?thesis by (simp add: concatSegments_def)
next
  case (Cons x xs)
  have "list_all (\<lambda>s. segmentText s = Inr (JStr (plainTextOf s))) segs"
    using assms by (simp add: list_all_iff segmentText_wellformed)
  then have m: "mapE segmentText segs = Inr (map (\<lambda>s. JStr (plainTextOf s)) segs)"
    by (rule mapE_total)
  have "concatSegments (JArr segs) =
      bindE (mapE segmentText segs) (\<lambda>ts. Inr (Value (JStr (joinEmpty ts))))"
    unfolding Cons by (simp add: concatSegments_def)
  also have "\<dots> = Inr (Value (JStr (joinEmpty (map (\<lambda>s. JStr (plainTextOf s)) segs))))"
    unfolding m by (simp add: bindE_def)
  finally show ?thesis
    by (simp only: joinEmpty_strings)
qed

lemma optionName_wellformed:
  "isObject item \<Longrightarrow> getp item ''name'' = Inr (optionNameOf item)"
  by (cases item) (simp_all add: optionNameOf_def)

lemma multiSelect_wellformed:
  assumes "list_all isObject items"
  shows "mapOrEmpty (\<lambda>item. getp item ''name'') (JArr items) = Inr (JArr (map optionNameOf items))"
proof -
  have "list_all (\<lambda>i. getp i ''name'' = Inr (optionNameOf i)) items"
    using assms by (simp add: list_all_iff optionName_wellformed)
  then have "mapE (\<lambda>item. getp item ''name'') items = Inr (map optionNameOf items)"
    by (rule mapE_total)
  then show ?thesis
    by (simp add: mapOrEmpty_def jsMapOpt_def bindE_def orElse_def)
qed

lemma lookupProperty_absent:
  assumes "getp page ''properties'' = Inr (JObj props)"
    and "absentFrom props propertyId propertyName"
  shows "lookupProperty page propertyId propertyName = Inr JUndefined"
  using assms
  by (auto simp: lookupProperty_def absentFrom_def bindE_def split: option.splits)

text \<open>
  Claim C7, as stated, fails for the absent property. A page without a property bag
  holds no property under any identifier or name, and extraction throws on it, since it
  reads \<open>page.properties[propertyId]\<close> first. On the example page, which holds nothing
  under the key \<open>constructor\<close>, extraction of that key as a title finds what every
  object inherits and returns the empty text, not \<open>null\<close>.
\<close>

theorem extractProperty_absent_counterexample:
  "extractProperty baglessPage ''title'' ''title'' (Some ''Name'') = Inl TypeError
   \<and> getp examplePage ''properties'' = Inr (JObj exampleProperties)
   \<and> map_of exampleProperties ''constructor'' = None
   \<and> extractProperty examplePage ''constructor'' ''title'' None = Inr (Value (JStr []))
   \<and> Value (JStr []) \<noteq> Value JNull"
  by (simp add: extractProperty_def lookupProperty_def extractValue_def concatSegments_def
      bindE_def baglessPage_def examplePage_def exampleProperties_def inheritedKeys_def)

text \<open>
  Claim C7, as amended. For a property that the lookup finds: with declared type \<open>title\<close> and a
  list of well-formed text segments, extraction returns the concatenation of the
  segments' texts in order; with declared type \<open>multi_select\<close> and a list of options,
  it returns the list of the options' names in order. For a page with a property bag that
  holds the property neither under the identifier nor under the fallback name, neither
  being a key that every object inherits, extraction returns \<open>null\<close> whatever the
  declared type. In all three cases the function returns a value and does
  not throw.
\<close>

theorem extractProperty_typed:
  "(lookupProperty page propertyId propertyName = Inr prop \<and> truthy prop
      \<and> getq prop ''title'' = JArr segs \<and> list_all isTextSegment segs
    \<longrightarrow> extractProperty page propertyId ''title'' propertyName
          = Inr (Value (JStr (concat (map plainTextOf segs)))))
   \<and> (lookupProperty page propertyId propertyName = Inr prop \<and> truthy prop
      \<and> getq prop ''multi_select'' = JArr items \<and> list_all isObject items
    \<longrightarrow> extractProperty page propertyId ''multi_select'' propertyName
          = Inr (Value (JArr (map optionNameOf items))))
   \<and> (getp page ''properties'' = Inr (JObj props) \<and> absentFrom props propertyId propertyName
    \<longrightarrow> extractProperty page propertyId propertyType propertyName = Inr (Value JNull))"
proof (intro conjI impI)
  assume "lookupProperty page propertyId propertyName = Inr prop \<and> truthy prop
      \<and> getq prop ''title'' = JArr segs \<and> list_all isTextSegment segs"
  then show "extractProperty page propertyId ''title'' propertyName
          = Inr (Value (JStr (concat (map plainTextOf segs))))"
    by (simp add: extractProperty_def extractValue_def bindE_def concatSegments_wellformed)
next
  assume "lookupProperty page propertyId propertyName = Inr prop \<and> truthy prop
      \<and> getq prop ''multi_select'' = JArr items \<and> list_all isObject items"
  then show "extractProperty page propertyId ''multi_select'' propertyName
          = Inr (Value (JArr (map optionNameOf items)))"
    by (simp add: extractProperty_def extractValue_def bindE_def multiSelect_wellformed)
next
  assume "getp page ''properties'' = Inr (JObj props) \<and> absentFrom props propertyId propertyName"
  then have "lookupProperty page propertyId propertyName = Inr JUndefined"
    by (simp add: lookupProperty_absent)
  then show "extractProperty page propertyId propertyType propertyName = Inr (Value JNull)"
    by (simp add: extractProperty_def bindE_def)
qed

text \<open>
  The three cases on the example page: the title is read by identifier, the multi-select
  by its fallback name, and a date that the page does not carry is \<open>null\<close>.
\<close>

theorem extractProperty_typed_witness:
  "extractProperty examplePage ''title'' ''title'' (Some ''Name'')
     = Inr (Value (JStr ''Hello World''))
   \<and> extractProperty examplePage ''xYz1'' ''multi_select'' (Some ''Tags'')
     = Inr (Value (JArr [JStr ''A'', JStr ''B'']))
   \<and> extractProperty examplePage ''W__Q'' ''date'' (Some ''Ready for Client Date'')
     = Inr (Value JNull)"
proof -
  let ?title = "JObj [(''type'', JStr ''title''),
      (''title'', JArr [JObj [(''plain_text'', JStr ''Hello '')],
                        JObj [(''plain_text'', JStr ''World'')]])]"
  let ?tags = "JObj [(''type'', JStr ''multi_select''),
      (''multi_select'', JArr [JObj [(''name'', JStr ''A'')], JObj [(''name'', JStr ''B'')]])]"
  let ?props = "[(''title'', ?title), (''Tags'', ?tags)]"
  have a: "lookupProperty examplePage ''title'' (Some ''Name'') = Inr ?title \<and> truthy ?title
      \<and> getq ?title ''title'' = JArr [JObj [(''plain_text'', JStr ''Hello '')],
                                        JObj [(''plain_text'', JStr ''World'')]]
      \<and> list_all isTextSegment [JObj [(''plain_text'', JStr ''Hello '')],
                                 JObj [(''plain_text'', JStr ''World'')]]"
    by (simp add: examplePage_def exampleProperties_def lookupProperty_def bindE_def
        isTextSegment_def)
  have b: "lookupProperty examplePage ''xYz1'' (Some ''Tags'') = Inr ?tags \<and> truthy ?tags
      \<and> getq ?tags ''multi_select'' = JArr [JObj [(''name'', JStr ''A'')], JObj [(''name'', JStr ''B'')]]
      \<and> list_all isObject [JObj [(''name'', JStr ''A'')], JObj [(''name'', JStr ''B'')]]"
    by (simp add: examplePage_def exampleProperties_def lookupProperty_def bindE_def
        inheritedKeys_def)
  have c: "getp examplePage ''properties'' = Inr (JObj ?props)
      \<and> absentFrom ?props ''W__Q'' (Some ''Ready for Client Date'')"
    by (simp add: examplePage_def exampleProperties_def absentFrom_def inheritedKeys_def)
  have "extractProperty examplePage ''title'' ''title'' (Some ''Name'')
      = Inr (Value (JStr (concat (map plainTextOf [JObj [(''plain_text'', JStr ''Hello '')],
                                                  JObj [(''plain_text'', JStr ''World'')]]))))"
    using extractProperty_typed [THEN conjunct1, rule_format, OF a] .
  moreover have "extractProperty examplePage ''xYz1'' ''multi_select'' (Some ''Tags'')
      = Inr (Value (JArr (map optionNameOf [JObj [(''name'', JStr ''A'')],
                                           JObj [(''name'', JStr ''B'')]])))"
    using extractProperty_typed [THEN conjunct2, THEN conjunct1, rule_format, OF b] .
  moreover have "extractProperty examplePage ''W__Q'' ''date'' (Some ''Ready for Client Date'')
      = Inr (Value JNull)"
    using extractProperty_typed [THEN conjunct2, THEN conjunct2, rule_format, OF c] .
  ultimately show ?thesis
    by (simp add: plainTextOf_def optionNameOf_def)
qed

section \<open>Paginated fetch: proofs\<close>


lemma received_snoc: "received (t @ [(k, req, resp)]) = received t @ results resp"
  by (simp add: received_def)

lemma cappedRequests_snoc:
  "cappedRequests d f cap n (t @ [(k, req, resp)]) =
     (cappedRequests d f cap n t \<and> k = n + length (received t)
      \<and> int (n + length (received t)) < cap
      \<and> page_size req = min 100 (cap - int (n + length (received t)))
      \<and> database_id req = d \<and> query_filter req = f)"
  by (induction d f cap n t rule: cappedRequests.induct) (auto simp: received_def)

lemma fetchLoop_capped:
  assumes "fetchLoop fuel query d f (Some cap) cursor allPages trace = Some (Inr (pages, tr))"
    and "1 \<le> cap" and "int (length allPages) < cap"
    and "allPages = received trace" and "cappedRequests d f cap 0 trace"
  shows "int (length pages) \<le> cap \<and> pages = take (nat cap) (received tr)
         \<and> cappedRequests d f cap 0 tr"
  using assms
proof (induction fuel arbitrary: cursor allPages trace)
  case 0
  then show ?case by simp
next
  case (Suc fuel)
  let ?r = "cap - int (length allPages)"
  let ?req = "\<lparr>database_id = d, start_cursor = cursor, query_filter = f,
                 page_size = pageSizeOf (Some ?r)\<rparr>"
  have rl: "remainingLimitOf (Some cap) (length allPages) = Some ?r"
    using Suc.prems(2) by (simp add: remainingLimitOf_def)
  have rpos: "0 < ?r" using Suc.prems(3) by simp
  obtain resp where q: "query ?req = Inr resp"
    using Suc.prems(1) rl by (cases "query ?req") (simp_all add: Let_def)
  let ?ap = "allPages @ taken (Some ?r) (results resp)"
  let ?tr = "trace @ [(length allPages, ?req, resp)]"
  have tk: "taken (Some ?r) (results resp) = take (nat ?r) (results resp)"
    using rpos by (simp add: taken_def slice0_def)
  have ap: "?ap = take (nat cap) (received ?tr)"
  proof -
    have "received ?tr = allPages @ results resp"
      using Suc.prems(4) by (simp add: received_snoc)
    moreover have "nat cap - length allPages = nat ?r"
      using Suc.prems(3) by linarith
    moreover have "length allPages \<le> nat cap"
      using Suc.prems(3) by linarith
    ultimately show ?thesis by (simp add: tk)
  qed
  have le: "int (length ?ap) \<le> cap"
  proof -
    have "length (take (nat cap) (received ?tr)) \<le> nat cap" by simp
    then have "length ?ap \<le> nat cap" by (simp only: ap)
    then show ?thesis using Suc.prems(2) by linarith
  qed
  have ps: "pageSizeOf (Some ?r) = min 100 ?r"
    using rpos by (simp add: pageSizeOf_def)
  have cr: "cappedRequests d f cap 0 ?tr"
    using Suc.prems(3,4,5) ps by (simp add: cappedRequests_snoc)
  show ?case
  proof (cases "limitReached (Some cap) (length ?ap)")
    case True
    then have "pages = ?ap" "tr = ?tr"
      using Suc.prems(1) rl q by (simp_all add: Let_def)
    then show ?thesis using ap cr le by simp
  next
    case False
    then have lt: "int (length ?ap) < cap"
      using Suc.prems(2) by (simp add: limitReached_def)
    have full: "?ap = received ?tr"
    proof -
      have "length (received ?tr) \<le> nat cap \<or> length ?ap = nat cap"
        using ap by (metis length_take min_def nat_le_linear)
      then have "length (received ?tr) \<le> nat cap"
        using lt by linarith
      then show ?thesis using ap by simp
    qed
    show ?thesis
    proof (cases "nextCursorOf resp \<noteq> None \<and> belowLimit (Some cap) (length ?ap)")
      case True
      then have "fetchLoop fuel query d f (Some cap) (nextCursorOf resp) ?ap ?tr
          = Some (Inr (pages, tr))"
        using Suc.prems(1) rl q False by (simp add: Let_def)
      from Suc.IH [OF this Suc.prems(2) lt full cr] show ?thesis .
    next
      case F2: False
      then have "pages = ?ap" "tr = ?tr"
        using Suc.prems(1) rl q False by (auto simp add: Let_def)
      then show ?thesis using ap cr le by simp
    qed
  qed
qed


lemma fetchLoop_returns:
  assumes "productive query" and "1 \<le> cap" and "int (length allPages) < cap"
    and "nat (cap - int (length allPages)) \<le> fuel"
  shows "\<exists>pages tr. fetchLoop fuel query d f (Some cap) cursor allPages trace
           = Some (Inr (pages, tr))"
  using assms(3,4)
proof (induction fuel arbitrary: cursor allPages trace)
  case 0
  then show ?case by simp
next
  case (Suc fuel)
  let ?r = "cap - int (length allPages)"
  let ?req = "\<lparr>database_id = d, start_cursor = cursor, query_filter = f,
                 page_size = pageSizeOf (Some ?r)\<rparr>"
  have rl: "remainingLimitOf (Some cap) (length allPages) = Some ?r"
    using assms(2) by (simp add: remainingLimitOf_def)
  have rpos: "0 < ?r" using Suc.prems(1) by simp
  obtain resp where q: "query ?req = Inr resp"
    and pr: "results resp \<noteq> [] \<or> nextCursorOf resp = None"
    using assms(1) unfolding productive_def by blast
  let ?ap = "allPages @ taken (Some ?r) (results resp)"
  let ?tr = "trace @ [(length allPages, ?req, resp)]"
  have tk: "taken (Some ?r) (results resp) = take (nat ?r) (results resp)"
    using rpos by (simp add: taken_def slice0_def)
  show ?case
  proof (cases "limitReached (Some cap) (length ?ap)")
    case True
    then show ?thesis using rl q by (simp add: Let_def)
  next
    case False
    then have lt: "int (length ?ap) < cap"
      using assms(2) by (simp add: limitReached_def)
    show ?thesis
    proof (cases "nextCursorOf resp \<noteq> None \<and> belowLimit (Some cap) (length ?ap)")
      case True
      then have "results resp \<noteq> []" using pr by auto
      then have "take (nat ?r) (results resp) \<noteq> []"
        using rpos by simp
      then have "length allPages < length ?ap"
        by (simp add: tk)
      then have "nat (cap - int (length ?ap)) \<le> fuel"
        using Suc.prems(2) by linarith
      from Suc.IH [OF lt this, of "nextCursorOf resp" ?tr]
      show ?thesis using rl q False True by (simp add: Let_def)
    next
      case F2: False
      then show ?thesis using rl q False by (auto simp add: Let_def)
    qed
  qed
qed

text \<open>
  Claim C5, as amended. For every collection, filter and cap of at least 1: a fetch that
  returns holds at most \<open>cap\<close> pages, namely the first \<open>cap\<close> of everything the tracker
  sent, so the surplus of the last answer is cut off; and every request was sent while
  the accumulated count was below the cap, asking for the lesser of 100 and the
  remaining cap. Against a productive tracker the fetch does return, within \<open>cap\<close>
  requests.
\<close>

theorem fetchAllPages_capped:
  assumes "1 \<le> cap"
  shows "(fetchAllPages fuel query d f (Some cap) = Some (Inr (pages, tr))
          \<longrightarrow> int (length pages) \<le> cap \<and> pages = take (nat cap) (received tr)
              \<and> cappedRequests d f cap 0 tr)
       \<and> (productive query
          \<longrightarrow> (\<exists>ps t. fetchAllPages (nat cap) query d f (Some cap) = Some (Inr (ps, t))))"
proof (rule conjI)
  show "fetchAllPages fuel query d f (Some cap) = Some (Inr (pages, tr))
          \<longrightarrow> int (length pages) \<le> cap \<and> pages = take (nat cap) (received tr)
              \<and> cappedRequests d f cap 0 tr"
  proof (rule impI)
    assume r: "fetchAllPages fuel query d f (Some cap) = Some (Inr (pages, tr))"
    have "int (length ([]::json list)) < cap" using assms by simp
    moreover have "[] = received []" by (simp add: received_def)
    moreover have "cappedRequests d f cap 0 []" by simp
    ultimately show "int (length pages) \<le> cap \<and> pages = take (nat cap) (received tr)
        \<and> cappedRequests d f cap 0 tr"
      using fetchLoop_capped [OF r [unfolded fetchAllPages_def] assms] by blast
  qed
  show "productive query
          \<longrightarrow> (\<exists>ps t. fetchAllPages (nat cap) query d f (Some cap) = Some (Inr (ps, t)))"
  proof (rule impI)
    assume p: "productive query"
    have "int (length ([]::json list)) < cap" using assms by simp
    moreover have "nat (cap - int (length ([]::json list))) \<le> nat cap" by simp
    ultimately show "\<exists>ps t. fetchAllPages (nat cap) query d f (Some cap) = Some (Inr (ps, t))"
      unfolding fetchAllPages_def by (rule fetchLoop_returns [OF p assms])
  qed
qed

text \<open>
  A cap of 3 against the tracker that sends two items per page: the second request asks
  for one item, gets two, and the fetch keeps the first of them.
\<close>

theorem fetchAllPages_capped_witness:
  "(1::int) \<le> 3 \<and> productive twoPerPage
   \<and> fetchedPages (fetchAllPages 3 twoPerPage ''db'' None (Some 3))
       = Some [JStr ''a'', JStr ''b'', JStr ''c'']
   \<and> [JStr ''a'', JStr ''b'', JStr ''c'']
       = take 3 [JStr ''a'', JStr ''b'', JStr ''c'', JStr ''d'']"
proof -
  let ?tr = "[(0, \<lparr>database_id = ''db'', start_cursor = None, query_filter = None,
                     page_size = 3\<rparr>,
               \<lparr>results = [JStr ''a'', JStr ''b''], has_more = True,
                  next_cursor = Some ''c1''\<rparr>),
              (2, \<lparr>database_id = ''db'', start_cursor = Some ''c1'', query_filter = None,
                     page_size = 1\<rparr>,
               \<lparr>results = [JStr ''c'', JStr ''d''], has_more = True,
                  next_cursor = Some ''c2''\<rparr>)]"
  have c: "(1::int) \<le> 3" by simp
  have p: "productive twoPerPage"
    by (simp add: productive_def twoPerPage_def nextCursorOf_def)
  have r: "fetchAllPages 3 twoPerPage ''db'' None (Some 3)
      = Some (Inr ([JStr ''a'', JStr ''b'', JStr ''c''], ?tr))"
    by (simp add: fetchAllPages_def numeral_3_eq_3 twoPerPage_def remainingLimitOf_def
        pageSizeOf_def taken_def nextCursorOf_def limitReached_def belowLimit_def Let_def
        slice0_def)
  have "int (length [JStr ''a'', JStr ''b'', JStr ''c'']) \<le> 3
      \<and> [JStr ''a'', JStr ''b'', JStr ''c''] = take (nat 3) (received ?tr)
      \<and> cappedRequests ''db'' None 3 0 ?tr"
    using fetchAllPages_capped [OF c, THEN conjunct1, rule_format, OF r] .
  moreover have "\<exists>ps t. fetchAllPages (nat 3) twoPerPage ''db'' None (Some 3) = Some (Inr (ps, t))"
    using fetchAllPages_capped [OF c, THEN conjunct2, rule_format, OF p] .
  ultimately show ?thesis
    using c p r by (simp add: fetchedPages_def received_def)
qed

text \<open>
  Claim C5, as stated, fails for a cap of 0: the fetch treats it as no cap and returns
  all five items of the tracker.
\<close>

theorem fetchAllPages_zero_cap_counterexample:
  "fetchedPages (fetchAllPages 3 twoPerPage ''db'' None (Some 0))
     = Some [JStr ''a'', JStr ''b'', JStr ''c'', JStr ''d'', JStr ''e'']
   \<and> \<not> int (length [JStr ''a'', JStr ''b'', JStr ''c'', JStr ''d'', JStr ''e'']) \<le> 0"
  by (simp add: fetchedPages_def fetchAllPages_def numeral_3_eq_3 twoPerPage_def
      remainingLimitOf_def pageSizeOf_def taken_def nextCursorOf_def limitReached_def
      belowLimit_def Let_def)

section \<open>Status history: proofs\<close>










lemma recordStatusHistory_guard:
  "recordStatusHistory now c db =
     (if lastHistoryOf (cardIdOf c db) (card_status_history db) = None
         \<or> map_option h_status (lastHistoryOf (cardIdOf c db) (card_status_history db)) \<noteq> status c
      then db\<lparr>card_status_history := card_status_history db @
             [\<lparr>card_id = cardIdOf c db, h_status = statusOrUnknown (status c),
               changed_at = updated_at c, detected_at = now, source = ''notion''\<rparr>]\<rparr>
      else db)"
  by (auto simp: recordStatusHistory_def statusChanged_def Let_def split: option.splits)

text \<open>
  Claim C3, as amended. For a card that carries a status, the recorder appends exactly
  one record when the entity has no history record yet or when the status of its latest
  record differs from the card's status, and leaves the whole store unchanged in every
  other case. For a card without a status and an entity without a history record, it
  appends a record with the status \<open>Unknown\<close>. It never touches the cards collection
  or an existing history record.
\<close>

theorem recordStatusHistory_writes_iff:
  "(status c = Some s
      \<longrightarrow> recordStatusHistory now c db =
          (if lastHistoryOf (cardIdOf c db) (card_status_history db) = None
              \<or> map_option h_status (lastHistoryOf (cardIdOf c db) (card_status_history db))
                  \<noteq> Some s
           then db\<lparr>card_status_history := card_status_history db @
                  [\<lparr>card_id = cardIdOf c db, h_status = statusOrUnknown (Some s),
                    changed_at = updated_at c, detected_at = now, source = ''notion''\<rparr>]\<rparr>
           else db))
   \<and> (status c = None \<and> lastHistoryOf (cardIdOf c db) (card_status_history db) = None
      \<longrightarrow> recordStatusHistory now c db =
          db\<lparr>card_status_history := card_status_history db @
             [\<lparr>card_id = cardIdOf c db, h_status = ''Unknown'',
               changed_at = updated_at c, detected_at = now, source = ''notion''\<rparr>]\<rparr>)"
  using recordStatusHistory_guard [of now c db]
  by (auto simp: statusOrUnknown_def)

text \<open>
  The amended rule at work: an unchanged status writes nothing, a changed one appends,
  and a card without a status gets an \<open>Unknown\<close> record on an empty store.
\<close>

theorem recordStatusHistory_writes_iff_witness:
  "recordStatusHistory 9 (cardWith ''p1'' ''Done'' 5)
       \<lparr>cards = [], card_status_history =
          [\<lparr>card_id = ''p1'', h_status = ''Done'', changed_at = 1, detected_at = 2,
            source = ''notion''\<rparr>]\<rparr>
     = \<lparr>cards = [], card_status_history =
          [\<lparr>card_id = ''p1'', h_status = ''Done'', changed_at = 1, detected_at = 2,
            source = ''notion''\<rparr>]\<rparr>
   \<and> card_status_history (recordStatusHistory 9 (cardWith ''p1'' ''QI'' 5)
       \<lparr>cards = [], card_status_history =
          [\<lparr>card_id = ''p1'', h_status = ''Done'', changed_at = 1, detected_at = 2,
            source = ''notion''\<rparr>]\<rparr>)
     = [\<lparr>card_id = ''p1'', h_status = ''Done'', changed_at = 1, detected_at = 2,
          source = ''notion''\<rparr>,
        \<lparr>card_id = ''p1'', h_status = ''QI'', changed_at = 5, detected_at = 9,
          source = ''notion''\<rparr>]
   \<and> card_status_history (recordStatusHistory 9
         \<lparr>notion_id = ''p2'', status = None, updated_at = 7\<rparr>
         \<lparr>cards = [], card_status_history = []\<rparr>)
     = [\<lparr>card_id = ''p2'', h_status = ''Unknown'', changed_at = 7, detected_at = 9,
          source = ''notion''\<rparr>]"
proof -
  let ?db = "\<lparr>cards = [], card_status_history =
          [\<lparr>card_id = ''p1'', h_status = ''Done'', changed_at = 1, detected_at = 2,
            source = ''notion''\<rparr>]\<rparr>"
  let ?e = "\<lparr>cards = [], card_status_history = []\<rparr>"
  let ?n = "\<lparr>notion_id = ''p2'', status = None, updated_at = 7\<rparr>"
  have s1: "status (cardWith ''p1'' ''Done'' 5) = Some ''Done''"
    and s2: "status (cardWith ''p1'' ''QI'' 5) = Some ''QI''"
    by (simp_all add: cardWith_def)
  have s3: "status ?n = None \<and> lastHistoryOf (cardIdOf ?n ?e) (card_status_history ?e) = None"
    by (simp add: lastHistoryOf_def)
  note a = recordStatusHistory_writes_iff [of "cardWith ''p1'' ''Done'' 5" "''Done''" 9 ?db,
      THEN conjunct1, rule_format, OF s1]
  note b = recordStatusHistory_writes_iff [of "cardWith ''p1'' ''QI'' 5" "''QI''" 9 ?db,
      THEN conjunct1, rule_format, OF s2]
  note c = recordStatusHistory_writes_iff [of ?n _ 9 ?e, THEN conjunct2, rule_format, OF s3]
  show ?thesis
    using a b c
    by (simp add: cardWith_def cardIdOf_def findCard_def lastHistoryOf_def statusOrUnknown_def)
qed

text \<open>
  Claim C3, as stated, fails: on an empty store, a card without a status has no prior
  record and no status, so the stated rule writes nothing; the recorder writes an
  \<open>Unknown\<close> record.
\<close>

theorem recordStatusHistory_absent_status_counterexample:
  "card_status_history
       (recordStatusHistory 1 \<lparr>notion_id = ''p1'', status = None, updated_at = 0\<rparr>
          \<lparr>cards = [], card_status_history = []\<rparr>)
     = [\<lparr>card_id = ''p1'', h_status = ''Unknown'', changed_at = 0, detected_at = 1,
         source = ''notion''\<rparr>]
   \<and> lastHistoryOf ''p1'' [] = None
   \<and> \<not> spec_writesHistory None None"
  by (simp add: recordStatusHistory_def cardIdOf_def findCard_def lastHistoryOf_def
      statusChanged_def statusOrUnknown_def spec_writesHistory_def)




section \<open>Identity matching: proofs\<close>

lemma find_app:
  "find P (xs @ ys) = (case find P xs of Some x \<Rightarrow> Some x | None \<Rightarrow> find P ys)"
  by (induction xs) simp_all

lemma map_of_index_fst:
  "map_of (fst (foldl (indexMember lowerTrim) ix ms)) k =
     (case find (\<lambda>m. emailKey lowerTrim m = Some k) (rev ms) of
        Some m \<Rightarrow> Some m | None \<Rightarrow> map_of (fst ix) k)"
proof (induction ms arbitrary: ix)
  case Nil then show ?case by simp
next
  case (Cons m ms)
  have "map_of (fst (indexMember lowerTrim ix m)) k
      = (if emailKey lowerTrim m = Some k then Some m else map_of (fst ix) k)"
    by (cases ix) (auto simp: indexMember_def update_conv' split: option.splits)
  then show ?case
    by (simp add: Cons.IH find_app split: option.splits)
qed

lemma map_of_index_snd:
  "map_of (snd (foldl (indexMember lowerTrim) ix ms)) k =
     (case find (\<lambda>m. nameKey lowerTrim m = Some k) (rev ms) of
        Some m \<Rightarrow> Some m | None \<Rightarrow> map_of (snd ix) k)"
proof (induction ms arbitrary: ix)
  case Nil then show ?case by simp
next
  case (Cons m ms)
  have "map_of (snd (indexMember lowerTrim ix m)) k
      = (if nameKey lowerTrim m = Some k then Some m else map_of (snd ix) k)"
    by (cases ix) (auto simp: indexMember_def update_conv' split: option.splits)
  then show ?case
    by (simp add: Cons.IH find_app split: option.splits)
qed

lemma byEmail_lookup:
  "map_of (fst (buildIndexes lowerTrim ms)) k = find (\<lambda>m. emailKey lowerTrim m = Some k) (rev ms)"
  by (simp add: buildIndexes_def map_of_index_fst split: option.splits)

lemma byName_lookup:
  "map_of (snd (buildIndexes lowerTrim ms)) k = find (\<lambda>m. nameKey lowerTrim m = Some k) (rev ms)"
  by (simp add: buildIndexes_def map_of_index_snd split: option.splits)

lemma matchUser_lookup:
  "map_of (matchUser lowerTrim bE bN m u) k =
     (if k = td_id u
      then (case emailHit lowerTrim bE u of
              Some nid \<Rightarrow> Some nid
            | None \<Rightarrow> (case map_of m (td_id u) of
                         Some old \<Rightarrow> Some old
                       | None \<Rightarrow> nameHit lowerTrim bN u))
      else map_of m k)"
  by (auto simp: matchUser_def emailHit_def nameHit_def update_conv' Let_def
      split: option.splits)

lemma matchUser_distinct:
  "distinct (map fst m) \<Longrightarrow> distinct (map fst (matchUser lowerTrim bE bN m u))"
  by (auto simp: matchUser_def Let_def distinct_update split: option.splits)

lemma fold_distinct:
  "distinct (map fst m) \<Longrightarrow> distinct (map fst (foldl (matchUser lowerTrim bE bN) m us))"
  by (induction us arbitrary: m) (simp_all add: matchUser_distinct)

lemma fold_other:
  "k \<notin> td_id ` set us \<Longrightarrow> map_of (foldl (matchUser lowerTrim bE bN) m us) k = map_of m k"
  by (induction us arbitrary: m) (simp_all add: matchUser_lookup)

lemma fold_lookup:
  assumes "distinct (map td_id us)" and "u \<in> set us" and "map_of m (td_id u) = None"
  shows "map_of (foldl (matchUser lowerTrim bE bN) m us) (td_id u) =
     (case emailHit lowerTrim bE u of Some nid \<Rightarrow> Some nid | None \<Rightarrow> nameHit lowerTrim bN u)"
  using assms
proof (induction us arbitrary: m)
  case Nil then show ?case by simp
next
  case (Cons v us)
  show ?case
  proof (cases "v = u")
    case True
    then have "td_id u \<notin> td_id ` set us" using Cons.prems(1) by auto
    then show ?thesis
      using True Cons.prems(3) by (simp add: fold_other matchUser_lookup split: option.splits)
  next
    case False
    then have u: "u \<in> set us" using Cons.prems(2) by simp
    then have "td_id u \<in> td_id ` set us" by (rule imageI)
    moreover have "td_id v \<notin> td_id ` set us" using Cons.prems(1) by simp
    ultimately have ne: "td_id u \<noteq> td_id v" by metis
    have "map_of (matchUser lowerTrim bE bN m v) (td_id u) = None"
      using ne Cons.prems(3) by (simp add: matchUser_lookup)
    from Cons.IH [OF _ u this] Cons.prems(1) show ?thesis by simp
  qed
qed

lemma emailKey_eq:
  "(emailKey lowerTrim m = Some k) = (case tm_email m of None \<Rightarrow> False | Some e' \<Rightarrow> e' \<noteq> [] \<and> lowerTrim e' = k)"
  by (auto simp: emailKey_def split: option.splits)

lemma nameKey_eq:
  "(nameKey lowerTrim m = Some k) = (tm_name m \<noteq> [] \<and> lowerTrim (tm_name m) = k)"
  by (auto simp: nameKey_def)

lemma emailHit_spec:
  "emailHit lowerTrim (fst (buildIndexes lowerTrim ms)) u = usableId (spec_emailMatch lowerTrim ms u)"
  by (simp add: emailHit_def spec_emailMatch_def byEmail_lookup emailKey_eq usableId_def
      split: option.splits)

lemma nameHit_spec:
  "nameHit lowerTrim (snd (buildIndexes lowerTrim ms)) u = usableId (spec_nameMatch lowerTrim ms u)"
  by (simp add: nameHit_def spec_nameMatch_def byName_lookup nameKey_eq usableId_def)

text \<open>
  Claim C6, as amended. The result holds at most one match per candidate identifier.
  When the candidates' identifiers are distinct, every candidate resolves to the
  identifier of its email match when it has an email match that has an identifier,
  whatever its name matches; it resolves by its name match only when it has no email
  match or its email match has no identifier, and then to the identifier of the name
  match when that has one, and to nothing otherwise. This holds for every
  normalization.
\<close>

theorem matchTimeDoctorUsers_email_first:
  "distinct (map fst (matchTimeDoctorUsers lowerTrim tdUsers teamMembers))
   \<and> (distinct (map td_id tdUsers) \<and> tdUser \<in> set tdUsers
      \<longrightarrow> (usableId (spec_emailMatch lowerTrim teamMembers tdUser) \<noteq> None
             \<longrightarrow> map_of (matchTimeDoctorUsers lowerTrim tdUsers teamMembers) (td_id tdUser)
                   = usableId (spec_emailMatch lowerTrim teamMembers tdUser))
          \<and> (usableId (spec_emailMatch lowerTrim teamMembers tdUser) = None
             \<longrightarrow> map_of (matchTimeDoctorUsers lowerTrim tdUsers teamMembers) (td_id tdUser)
                   = usableId (spec_nameMatch lowerTrim teamMembers tdUser)))"
proof -
  obtain bE bN where ix: "buildIndexes lowerTrim teamMembers = (bE, bN)"
    by (cases "buildIndexes lowerTrim teamMembers")
  have bE: "bE = fst (buildIndexes lowerTrim teamMembers)"
    and bN: "bN = snd (buildIndexes lowerTrim teamMembers)"
    using ix by simp_all
  have r: "matchTimeDoctorUsers lowerTrim tdUsers teamMembers
      = foldl (matchUser lowerTrim bE bN) [] tdUsers"
    by (simp add: matchTimeDoctorUsers_def ix)
  have d: "distinct (map fst (foldl (matchUser lowerTrim bE bN) [] tdUsers))"
    by (rule fold_distinct) simp
  have l: "map_of (foldl (matchUser lowerTrim bE bN) [] tdUsers) (td_id tdUser)
      = (case usableId (spec_emailMatch lowerTrim teamMembers tdUser) of
           Some nid \<Rightarrow> Some nid
         | None \<Rightarrow> usableId (spec_nameMatch lowerTrim teamMembers tdUser))"
    if "distinct (map td_id tdUsers)" "tdUser \<in> set tdUsers"
    using fold_lookup [OF that, of "[]" lowerTrim bE bN]
    by (simp add: bE bN emailHit_spec nameHit_spec split: option.splits)
  show ?thesis
    using d l by (auto simp: r split: option.splits)
qed

text \<open>
  The candidate with Ann's email and Bob's name resolves to Ann; the candidate without
  an email resolves to Bob by name.
\<close>

theorem matchTimeDoctorUsers_email_first_witness:
  "distinct (map td_id [mixedCandidate, nameOnlyCandidate])
   \<and> mixedCandidate \<in> set [mixedCandidate, nameOnlyCandidate]
   \<and> spec_emailMatch asciiNormalize [ann, bob] mixedCandidate = Some ann
   \<and> spec_nameMatch asciiNormalize [ann, bob] mixedCandidate = Some bob
   \<and> map_of (matchTimeDoctorUsers asciiNormalize [mixedCandidate, nameOnlyCandidate]
        [ann, bob]) ''td-1'' = Some ''n-ann''
   \<and> spec_emailMatch asciiNormalize [ann, bob] nameOnlyCandidate = None
   \<and> map_of (matchTimeDoctorUsers asciiNormalize [mixedCandidate, nameOnlyCandidate]
        [ann, bob]) ''td-2'' = Some ''n-bob''"
proof -
  have n1: "asciiNormalize ''Ann@Example.com'' = ''ann@example.com''"
    and n2: "asciiNormalize ''ann@example.com '' = ''ann@example.com''"
    and n3: "asciiNormalize ''bob@example.com'' = ''bob@example.com''"
    and n4: "asciiNormalize ''Ann Lee'' = ''ann lee''"
    and n5: "asciiNormalize ''Bob Ray'' = ''bob ray''"
    and n6: "asciiNormalize '' bob ray '' = ''bob ray''"
    and n7: "asciiNormalize ''BOB RAY'' = ''bob ray''"
    by code_simp+
  have ids: "distinct (map td_id [mixedCandidate, nameOnlyCandidate])"
    by (simp add: mixedCandidate_def nameOnlyCandidate_def)
  have e1: "spec_emailMatch asciiNormalize [ann, bob] mixedCandidate = Some ann"
    by (simp add: spec_emailMatch_def mixedCandidate_def ann_def bob_def n1 n2 n3)
  have m1: "spec_nameMatch asciiNormalize [ann, bob] mixedCandidate = Some bob"
    by (simp add: spec_nameMatch_def mixedCandidate_def ann_def bob_def n4 n5 n6)
  have e2: "spec_emailMatch asciiNormalize [ann, bob] nameOnlyCandidate = None"
    by (simp add: spec_emailMatch_def nameOnlyCandidate_def)
  have m2: "spec_nameMatch asciiNormalize [ann, bob] nameOnlyCandidate = Some bob"
    by (simp add: spec_nameMatch_def nameOnlyCandidate_def ann_def bob_def n4 n5 n7)
  have ua: "usableId (Some ann) = Some ''n-ann''" and ub: "usableId (Some bob) = Some ''n-bob''"
    by (simp_all add: usableId_def ann_def bob_def)
  have un: "usableId None = None"
    by (simp add: usableId_def)
  have i1: "td_id mixedCandidate = ''td-1''" and i2: "td_id nameOnlyCandidate = ''td-2''"
    by (simp_all add: mixedCandidate_def nameOnlyCandidate_def)
  have "map_of (matchTimeDoctorUsers asciiNormalize [mixedCandidate, nameOnlyCandidate]
      [ann, bob]) ''td-1'' = Some ''n-ann''"
    using matchTimeDoctorUsers_email_first
      [of asciiNormalize "[mixedCandidate, nameOnlyCandidate]" "[ann, bob]" mixedCandidate]
      ids
    by (auto simp: i1 e1 ua)
  moreover have "map_of (matchTimeDoctorUsers asciiNormalize
      [mixedCandidate, nameOnlyCandidate] [ann, bob]) ''td-2'' = Some ''n-bob''"
    using matchTimeDoctorUsers_email_first
      [of asciiNormalize "[mixedCandidate, nameOnlyCandidate]" "[ann, bob]" nameOnlyCandidate]
      ids
    by (auto simp: i2 e2 m2 ub un)
  ultimately show ?thesis using ids e1 m1 e2 by simp
qed

text \<open>
  Claim C6, as stated, fails. Ann has no identifier in the work tracker. The candidate's
  email matches Ann and its name matches Bob, a different member: by the stated rule it
  resolves to its email match. The matcher resolves it to Bob.
\<close>

theorem matchTimeDoctorUsers_email_without_id_counterexample:
  "spec_emailMatch asciiNormalize [annWithoutId, bob] mixedCandidate = Some annWithoutId
   \<and> spec_nameMatch asciiNormalize [annWithoutId, bob] mixedCandidate = Some bob
   \<and> spec_resolve asciiNormalize [annWithoutId, bob] mixedCandidate = Some annWithoutId
   \<and> annWithoutId \<noteq> bob
   \<and> map_of (matchTimeDoctorUsers asciiNormalize [mixedCandidate] [annWithoutId, bob]) ''td-1''
       = tm_notion_id bob
   \<and> tm_notion_id bob = Some ''n-bob''"
proof -
  have n1: "asciiNormalize ''Ann@Example.com'' = ''ann@example.com''"
    and n2: "asciiNormalize ''ann@example.com '' = ''ann@example.com''"
    and n3: "asciiNormalize ''bob@example.com'' = ''bob@example.com''"
    and n4: "asciiNormalize ''Ann Lee'' = ''ann lee''"
    and n5: "asciiNormalize ''Bob Ray'' = ''bob ray''"
    and n6: "asciiNormalize '' bob ray '' = ''bob ray''"
    by code_simp+
  have e: "spec_emailMatch asciiNormalize [annWithoutId, bob] mixedCandidate = Some annWithoutId"
    by (simp add: spec_emailMatch_def mixedCandidate_def annWithoutId_def ann_def bob_def
        n1 n2 n3)
  have m: "spec_nameMatch asciiNormalize [annWithoutId, bob] mixedCandidate = Some bob"
    by (simp add: spec_nameMatch_def mixedCandidate_def annWithoutId_def ann_def bob_def
        n4 n5 n6)
  have r: "map_of (matchTimeDoctorUsers asciiNormalize [mixedCandidate] [annWithoutId, bob])
      ''td-1'' = Some ''n-bob''"
    by (simp add: matchTimeDoctorUsers_def buildIndexes_def indexMember_def emailKey_def
        nameKey_def matchUser_def usableId_def mixedCandidate_def annWithoutId_def ann_def
        bob_def n1 n2 n3 n4 n5 n6 Let_def)
  show ?thesis
    using e m r by (simp add: spec_resolve_def annWithoutId_def ann_def bob_def)
qed

section \<open>Average days late: proofs\<close>


























section \<open>The sync pass: proofs\<close>

lemma concat_batchesOf: "0 < n \<Longrightarrow> concat (batchesOf n xs) = xs"
proof (induction n xs rule: batchesOf.induct)
  case (1 n xs)
  show ?case
  proof (cases "xs = []")
    case True
    then show ?thesis by (subst batchesOf.simps) simp
  next
    case False
    then have "concat (batchesOf n (drop n xs)) = drop n xs"
      using 1 by simp
    then show ?thesis
      using False 1(2) by (subst batchesOf.simps) simp
  qed
qed

lemma foldl_batches:
  "foldl (processBatch env) st xss = foldl (processOne env) st (concat xss)"
  by (induction xss arbitrary: st) (simp_all add: processBatch_def)

lemma processInBatches_flat:
  "processInBatches env st pages = foldl (processOne env) st pages"
  by (simp add: processInBatches_def foldl_batches concat_batchesOf BATCH_SIZE_def)

lemma failedPages_le: "length (failedPages env w pages) \<le> length pages"
proof (induction pages arbitrary: w)
  case Nil
  then show ?case by simp
next
  case (Cons page rest)
  obtain r w' where p: "processPage env page w = (r, w')"
    by (cases "processPage env page w")
  show ?case
    using p Cons.IH [of w'] by (cases r) (simp_all add: le_SucI)
qed

lemma processOne_ok:
  "processPage env page w = (None, w') \<Longrightarrow>
   processOne env (syncLog, w) page
     = (syncLog\<lparr>records_processed := records_processed syncLog + 1\<rparr>, w')"
  by (simp add: processOne_def)

lemma processOne_fail:
  "processPage env page w = (Some e, w') \<Longrightarrow>
   processOne env (syncLog, w) page
     = (syncLog\<lparr>records_failed := records_failed syncLog + 1,
                error_count := error_count syncLog + 1\<rparr>, w')"
  by (simp add: processOne_def)

lemma processOne_counts:
  "foldl (processOne env) (syncLog, w) pages =
     (syncLog\<lparr>records_processed := records_processed syncLog
                 + (length pages - length (failedPages env w pages)),
              records_failed := records_failed syncLog + length (failedPages env w pages),
              error_count := error_count syncLog + length (failedPages env w pages)\<rparr>,
      stateAfter env w pages)"
proof (induction pages arbitrary: syncLog w)
  case Nil
  then show ?case by simp
next
  case (Cons page rest)
  obtain r w' where p: "processPage env page w = (r, w')"
    by (cases "processPage env page w")
  have le: "length (failedPages env w' rest) \<le> length rest"
    by (rule failedPages_le)
  show ?case
  proof (cases r)
    case None
    then show ?thesis
      using p le by (simp add: processOne_ok Cons.IH Suc_diff_le)
  next
    case (Some e)
    then show ?thesis
      using p le by (simp add: processOne_fail Cons.IH)
  qed
qed



lemma tryBlock_completed:
  assumes "fetchPages env (notionFilterOf clientId) limit = Inr pages"
    and "pagesToProcess (retiredClients env) clientId pages = Inr filteredPages"
  shows "tryBlock env clientId limit w =
     (case insertSyncLog env
             (spec_finalLog env clientId (length filteredPages)
                (length (failedPages env w filteredPages)))
             (stateAfter env w filteredPages) of
        Inl e \<Rightarrow> (Some e, spec_finalLog env clientId (length filteredPages)
                     (length (failedPages env w filteredPages)),
                  stateAfter env w filteredPages)
      | Inr w2 \<Rightarrow> (None, spec_finalLog env clientId (length filteredPages)
                     (length (failedPages env w filteredPages)), w2))"
proof -
  let ?l0 = "noteRetired env clientId (initialLog env clientId)"
  let ?k = "length (failedPages env w filteredPages)"
  have z: "records_processed ?l0 = 0" "records_failed ?l0 = 0" "error_count ?l0 = 0"
    by (simp_all add: noteRetired_def initialLog_def)
  have "processInBatches env (?l0, w) filteredPages =
      (?l0\<lparr>records_processed := length filteredPages - ?k, records_failed := ?k,
            error_count := ?k\<rparr>, stateAfter env w filteredPages)"
    by (simp add: processInBatches_flat processOne_counts z)
  moreover have "finalize env (?l0\<lparr>records_processed := length filteredPages - ?k,
      records_failed := ?k, error_count := ?k\<rparr>)
      = spec_finalLog env clientId (length filteredPages) ?k"
    by (simp add: finalize_def spec_finalLog_def)
  ultimately show ?thesis
    using assms by (simp add: tryBlock_def Let_def split: sum.splits)
qed

lemma syncProjects_rethrows:
  assumes "insertSyncLog env = (\<lambda>syncLog w. Inl e)"
  shows "fst (syncProjects env clientId limit w) = Inl e"
proof -
  obtain r syncLog w' where t: "tryBlock env clientId limit w = (r, syncLog, w')"
    by (cases "tryBlock env clientId limit w")
  have "r \<noteq> None"
    using t assms
    by (auto simp: tryBlock_def Let_def split: sum.splits prod.splits)
  then obtain e' where "r = Some e'" by blast
  then show ?thesis
    using t assms by (simp add: syncProjects_def)
qed

lemma filterE_completed:
  "filterE f xs = Inr ys \<Longrightarrow> ys = filter (\<lambda>x. f x = Inr True) xs"
proof (induction xs arbitrary: ys)
  case Nil then show ?case by simp
next
  case (Cons x xs)
  then show ?case
    by (cases "f x"; cases "filterE f xs") (auto simp: bindE_def)
qed

text \<open>
  Claim C2, as stated, fails. A pass without a scope fetches three pages, none of which
  fails in processing, while the client of the second page is retired: the pass drops
  that page after the fetch, before processing. The record counts 2 processed and 0
  failed with status success, not the 3 processed that three fetched pages without a
  failure would give.
\<close>

theorem syncProjects_retired_client_counterexample:
  "fetchPages retiredEnv (notionFilterOf None) None
     = Inr [clientPage ''p1'' ''QI'' ''c-live'', clientPage ''p2'' ''Done'' ''c-retired'',
            clientPage ''p3'' ''Done'' ''c-live'']
   \<and> failedPages retiredEnv emptyWorld
        [clientPage ''p1'' ''QI'' ''c-live'', clientPage ''p2'' ''Done'' ''c-retired'',
         clientPage ''p3'' ''Done'' ''c-live''] = []
   \<and> (case fst (syncProjects retiredEnv None None emptyWorld) of
         Inl e \<Rightarrow> False
       | Inr syncLog \<Rightarrow> records_processed syncLog = 2 \<and> records_failed syncLog = 0
                        \<and> log_status syncLog = Success)
   \<and> (2::nat) \<noteq> 3 - 0"
  by code_simp

text \<open>
  Claim C2, as amended. A pass fetches its pages and, when the filter on retired clients
  completes, \<open>filteredPages\<close> of them enter processing: all fetched pages in a scoped
  pass or when no client is retired, otherwise the fetched pages that the filter keeps.
  Let \<open>k\<close> be the number of those pages whose processing throws. When the pass returns
  a record, the record has \<open>records_processed = N - k\<close> and \<open>records_failed = k\<close> for
  \<open>N = length filteredPages\<close>, its status is partial when \<open>k > 0\<close> and success when
  \<open>k = 0\<close>, and it is the record that was written to the log after the last page. The
  pass does return that record whenever writing it succeeds: no page's failure ends the
  loop.
\<close>

theorem syncProjects_accounting:
  assumes "fetchPages env (notionFilterOf clientId) limit = Inr pages"
    and "pagesToProcess (retiredClients env) clientId pages = Inr filteredPages"
  shows "(syncProjects env clientId limit w = (Inr syncLog, w')
          \<longrightarrow> records_processed syncLog
                = length filteredPages - length (failedPages env w filteredPages)
              \<and> records_failed syncLog = length (failedPages env w filteredPages)
              \<and> log_status syncLog
                = (if 0 < length (failedPages env w filteredPages) then Partial else Success)
              \<and> insertSyncLog env syncLog (stateAfter env w filteredPages) = Inr w')
       \<and> (insertSyncLog env
            (spec_finalLog env clientId (length filteredPages)
               (length (failedPages env w filteredPages)))
            (stateAfter env w filteredPages) = Inr w2
          \<longrightarrow> syncProjects env clientId limit w
                = (Inr (spec_finalLog env clientId (length filteredPages)
                          (length (failedPages env w filteredPages))), w2))
       \<and> (scoped clientId \<or> retiredClients env = [] \<longrightarrow> filteredPages = pages)
       \<and> (\<not> scoped clientId \<and> retiredClients env \<noteq> []
          \<longrightarrow> filteredPages
                = filter (\<lambda>page. keepPage (retiredClients env) page = Inr True) pages)"
proof -
  let ?final = "spec_finalLog env clientId (length filteredPages)
      (length (failedPages env w filteredPages))"
  note t = tryBlock_completed [OF assms, of w]
  have f: "records_processed ?final
        = length filteredPages - length (failedPages env w filteredPages)"
    "records_failed ?final = length (failedPages env w filteredPages)"
    "log_status ?final
        = (if 0 < length (failedPages env w filteredPages) then Partial else Success)"
    by (simp_all add: spec_finalLog_def)
  have same: "scoped clientId \<or> retiredClients env = [] \<longrightarrow> filteredPages = pages"
    using assms(2) by (auto simp: pagesToProcess_def)
  have kept: "\<not> scoped clientId \<and> retiredClients env \<noteq> []
      \<longrightarrow> filteredPages
            = filter (\<lambda>page. keepPage (retiredClients env) page = Inr True) pages"
    using assms(2) by (auto simp: pagesToProcess_def dest: filterE_completed)
  show ?thesis
  proof (cases "insertSyncLog env ?final (stateAfter env w filteredPages)")
    case (Inl e)
    then have "tryBlock env clientId limit w = (Some e, ?final, stateAfter env w filteredPages)"
      using t by simp
    then have "\<exists>e2. fst (syncProjects env clientId limit w) = Inl e2"
      by (simp add: syncProjects_def split: sum.splits)
    then show ?thesis using Inl same kept by auto
  next
    case (Inr w3)
    then have "tryBlock env clientId limit w = (None, ?final, w3)"
      using t by simp
    then have "syncProjects env clientId limit w = (Inr ?final, w3)"
      by (simp add: syncProjects_def)
    then show ?thesis using Inr f same kept by auto
  qed
qed

text \<open>
  Three pages, the second broken: the record counts 2 processed and 1 failed with status
  partial, and the two good pages are both stored, the one after the failure too. And
  three pages in a pass without a scope, the second of a retired client: the first and
  the third enter processing.
\<close>

theorem syncProjects_accounting_witness:
  "fetchPages exampleEnv (notionFilterOf None) None
     = Inr [projectPage ''p1'' ''QI'', brokenPage, projectPage ''p2'' ''Done'']
   \<and> pagesToProcess (retiredClients exampleEnv) None
        [projectPage ''p1'' ''QI'', brokenPage, projectPage ''p2'' ''Done'']
     = Inr [projectPage ''p1'' ''QI'', brokenPage, projectPage ''p2'' ''Done'']
   \<and> failedPages exampleEnv emptyWorld
        [projectPage ''p1'' ''QI'', brokenPage, projectPage ''p2'' ''Done''] = [brokenPage]
   \<and> (case fst (syncProjects exampleEnv None None emptyWorld) of
         Inl e \<Rightarrow> False
       | Inr syncLog \<Rightarrow> records_processed syncLog = 2 \<and> records_failed syncLog = 1
                        \<and> log_status syncLog = Partial)
   \<and> \<not> scoped None \<and> retiredClients retiredEnv \<noteq> []
   \<and> pagesToProcess (retiredClients retiredEnv) None
        [clientPage ''p1'' ''QI'' ''c-live'', clientPage ''p2'' ''Done'' ''c-retired'',
         clientPage ''p3'' ''Done'' ''c-live'']
     = Inr [clientPage ''p1'' ''QI'' ''c-live'', clientPage ''p3'' ''Done'' ''c-live'']
   \<and> filter (\<lambda>page. keepPage (retiredClients retiredEnv) page = Inr True)
        [clientPage ''p1'' ''QI'' ''c-live'', clientPage ''p2'' ''Done'' ''c-retired'',
         clientPage ''p3'' ''Done'' ''c-live'']
     = [clientPage ''p1'' ''QI'' ''c-live'', clientPage ''p3'' ''Done'' ''c-live'']"
proof -
  let ?pages = "[projectPage ''p1'' ''QI'', brokenPage, projectPage ''p2'' ''Done'']"
  have a: "fetchPages exampleEnv (notionFilterOf None) None = Inr ?pages"
    by (simp add: exampleEnv_def)
  have b: "pagesToProcess (retiredClients exampleEnv) None ?pages = Inr ?pages"
    by (simp add: exampleEnv_def pagesToProcess_def)
  have p1: "\<And>nid st w. \<exists>w'. exampleProcess (projectPage nid st) w = (None, w')"
    by (simp add: exampleProcess_def projectPage_def extractProperty_def lookupProperty_def
        bindE_def extractValue_def inheritedKeys_def orElse_def Let_def)
  have p2: "\<And>w. exampleProcess brokenPage w = (Some TypeError, w)"
    by (simp add: exampleProcess_def brokenPage_def extractProperty_def lookupProperty_def
        bindE_def)
  have pp: "processPage exampleEnv = exampleProcess"
    by (simp add: exampleEnv_def)
  obtain w1 where w1: "exampleProcess (projectPage ''p1'' ''QI'') emptyWorld = (None, w1)"
    using p1 by blast
  obtain w2 where w2: "exampleProcess (projectPage ''p2'' ''Done'') w1 = (None, w2)"
    using p1 by blast
  have k: "failedPages exampleEnv emptyWorld ?pages = [brokenPage]"
    by (simp add: pp w1 w2 p2)
  let ?final = "spec_finalLog exampleEnv None (length ?pages)
      (length (failedPages exampleEnv emptyWorld ?pages))"
  have ins: "insertSyncLog exampleEnv ?final (stateAfter exampleEnv emptyWorld ?pages)
      = Inr (fst (stateAfter exampleEnv emptyWorld ?pages),
             snd (stateAfter exampleEnv emptyWorld ?pages) @ [?final])"
    by (simp add: exampleEnv_def)
  have "syncProjects exampleEnv None None emptyWorld
      = (Inr ?final, (fst (stateAfter exampleEnv emptyWorld ?pages),
             snd (stateAfter exampleEnv emptyWorld ?pages) @ [?final]))"
    using syncProjects_accounting [OF a b, THEN conjunct2, THEN conjunct1, rule_format, OF ins] .
  then have r: "syncProjects exampleEnv None None emptyWorld
      = (Inr ?final, (fst (stateAfter exampleEnv emptyWorld ?pages),
             snd (stateAfter exampleEnv emptyWorld ?pages) @ [?final]))" .
  have "records_processed ?final
        = length ?pages - length (failedPages exampleEnv emptyWorld ?pages)
      \<and> records_failed ?final = length (failedPages exampleEnv emptyWorld ?pages)
      \<and> log_status ?final
        = (if 0 < length (failedPages exampleEnv emptyWorld ?pages) then Partial else Success)
      \<and> insertSyncLog exampleEnv ?final (stateAfter exampleEnv emptyWorld ?pages)
        = Inr (fst (stateAfter exampleEnv emptyWorld ?pages),
             snd (stateAfter exampleEnv emptyWorld ?pages) @ [?final])"
    using syncProjects_accounting [OF a b, THEN conjunct1, rule_format, OF r] .
  then have "records_processed ?final = 2 \<and> records_failed ?final = 1
      \<and> log_status ?final = Partial"
    unfolding k by simp
  moreover have "fst (syncProjects exampleEnv None None emptyWorld) = Inr ?final"
    using r by simp
  ultimately have first: "(case fst (syncProjects exampleEnv None None emptyWorld) of
         Inl e \<Rightarrow> False
       | Inr syncLog \<Rightarrow> records_processed syncLog = 2 \<and> records_failed syncLog = 1
                        \<and> log_status syncLog = Partial)"
    by simp
  let ?fetched = "[clientPage ''p1'' ''QI'' ''c-live'', clientPage ''p2'' ''Done'' ''c-retired'',
      clientPage ''p3'' ''Done'' ''c-live'']"
  let ?kept = "[clientPage ''p1'' ''QI'' ''c-live'', clientPage ''p3'' ''Done'' ''c-live'']"
  have a2: "fetchPages retiredEnv (notionFilterOf None) None = Inr ?fetched"
    by (simp add: retiredEnv_def)
  have b2: "pagesToProcess (retiredClients retiredEnv) None ?fetched = Inr ?kept"
    by code_simp
  have c2: "\<not> scoped None \<and> retiredClients retiredEnv \<noteq> []"
    by (simp add: scoped_def retiredEnv_def)
  have "?kept = filter (\<lambda>page. keepPage (retiredClients retiredEnv) page = Inr True) ?fetched"
    using syncProjects_accounting [OF a2 b2, THEN conjunct2, THEN conjunct2, THEN conjunct2,
        rule_format, OF c2] .
  then show ?thesis using a b k first b2 c2 by simp
qed

text \<open>
  Claim C4, on the code. Two pages are processed without a failure, so the outcome of the
  pass is a record with status success; every write to the log collection throws. The
  caller does not get that record: the pass ends with the error of the log write.
\<close>

theorem syncProjects_log_write_error:
  "failedPages logFailEnv emptyWorld [projectPage ''p1'' ''QI'', projectPage ''p2'' ''Done''] = []
   \<and> fst (syncProjects logFailEnv None None emptyWorld) = Inl (Error ''sync_logs write failed'')"
proof -
  have p1: "\<And>nid st w. \<exists>w'. exampleProcess (projectPage nid st) w = (None, w')"
    by (simp add: exampleProcess_def projectPage_def extractProperty_def lookupProperty_def
        bindE_def extractValue_def inheritedKeys_def orElse_def Let_def)
  have pp: "processPage logFailEnv = exampleProcess"
    by (simp add: logFailEnv_def)
  obtain w1 where w1: "exampleProcess (projectPage ''p1'' ''QI'') emptyWorld = (None, w1)"
    using p1 by blast
  obtain w2 where w2: "exampleProcess (projectPage ''p2'' ''Done'') w1 = (None, w2)"
    using p1 by blast
  have k: "failedPages logFailEnv emptyWorld
      [projectPage ''p1'' ''QI'', projectPage ''p2'' ''Done''] = []"
    by (simp add: pp w1 w2)
  have "insertSyncLog logFailEnv = (\<lambda>syncLog w. Inl (Error ''sync_logs write failed''))"
    by (simp add: logFailEnv_def)
  then have "fst (syncProjects logFailEnv None None emptyWorld)
      = Inl (Error ''sync_logs write failed'')"
    by (rule syncProjects_rethrows)
  then show ?thesis using k by simp
qed

section \<open>Ranged worklog fetch: proofs\<close>

lemma fetchTimeDoctorWorklogs_returns:
  "\<exists>ws. fetchTimeDoctorWorklogs env config (Some fromDate) (Some toDate) userIds = Inr ws"
  by (simp add: fetchTimeDoctorWorklogs_def split: sum.splits)

lemma fetchTimeDoctorWorklogs_caught:
  "fetchBody env config fromDate toDate userIds = Inl e \<Longrightarrow>
   fetchTimeDoctorWorklogs env config (Some fromDate) (Some toDate) userIds = Inr []"
  by (simp add: fetchTimeDoctorWorklogs_def)

lemma includesText_nonempty: "includesText msg ''range too wide'' \<Longrightarrow> msg \<noteq> []"
  by (cases msg) simp_all

lemma range_error_thrown:
  assumes "worklogApi env (requestOf config fromDate toDate userIds) = Ok (Inr data)"
    and "getq data ''error'' = JStr msg" and "includesText msg ''range too wide''"
  shows "fetchBody env config fromDate toDate userIds
     = Inl (Error (''Time Doctor API range error: '' @ msg))"
  using assms includesText_nonempty [OF assms(3)]
  by (simp add: fetchBody_def bindE_def checkApiError_def mentionsRange_def Let_def)

lemma nothing_logged:
  assumes "worklogApi env (requestOf config fromDate toDate userIds) = Ok (Inr (JArr []))"
  shows "fetchTimeDoctorWorklogs env config (Some fromDate) (Some toDate) userIds = Inr []"
  using assms
  by (simp add: fetchTimeDoctorWorklogs_def fetchBody_def bindE_def checkApiError_def
      normalizePayload_def parseEntries_def Let_def)

lemma fetchWindow_total:
  "\<exists>ws. fetchWindow env config userIds a b acc = Inr (fst acc @ ws, snd acc @ [(a, b)])
      \<and> fetchTimeDoctorWorklogs env config (Some a) (Some b) (Some userIds) = Inr ws"
  using fetchTimeDoctorWorklogs_returns [of env config a b "Some userIds"]
  by (auto simp: fetchWindow_def)

text \<open>
  Since a window's fetch never throws, an iteration of the loop over the primary windows
  never enters its \<open>catch\<close> block: it appends what the window's fetch returned and
  moves on.
\<close>

lemma chunkLoop_step:
  "chunkLoop (Suc n) env config userIds endDate currentStart acc =
     (let chunkEndDate = (if endDate < addDays currentStart CHUNK_DAYS then endDate
                          else addDays currentStart CHUNK_DAYS);
          ws = (case fetchTimeDoctorWorklogs env config (Some currentStart) (Some chunkEndDate)
                       (Some userIds) of Inr ws \<Rightarrow> ws | Inl e \<Rightarrow> [])
      in chunkLoop n env config userIds endDate (addDays chunkEndDate 1)
           (fst acc @ ws, snd acc @ [(currentStart, chunkEndDate)]))"
proof -
  let ?ce = "(if endDate < addDays currentStart CHUNK_DAYS then endDate
              else addDays currentStart CHUNK_DAYS)"
  obtain ws where w: "fetchWindow env config userIds currentStart ?ce acc
        = Inr (fst acc @ ws, snd acc @ [(currentStart, ?ce)])"
      "fetchTimeDoctorWorklogs env config (Some currentStart) (Some ?ce) (Some userIds) = Inr ws"
    using fetchWindow_total by blast
  show ?thesis
    by (simp add: Let_def w)
qed

text \<open>
  Claim C10. Called with two valid dates, the function returns an array whatever the
  tracker does. Whenever the body of its \<open>try\<close> block throws, it returns the empty
  array: so it does when the payload carries an in-band error that mentions
  \<open>range too wide\<close>, for which the body throws the range error it builds itself. A
  window in which no work was logged gives the same empty array.
\<close>

theorem fetchTimeDoctorWorklogs_never_throws:
  "(\<exists>ws. fetchTimeDoctorWorklogs env config (Some fromDate) (Some toDate) userIds = Inr ws)
   \<and> (fetchBody env config fromDate toDate userIds = Inl e
      \<longrightarrow> fetchTimeDoctorWorklogs env config (Some fromDate) (Some toDate) userIds = Inr [])
   \<and> (worklogApi env (requestOf config fromDate toDate userIds) = Ok (Inr data)
        \<and> getq data ''error'' = JStr msg \<and> includesText msg ''range too wide''
      \<longrightarrow> fetchBody env config fromDate toDate userIds
            = Inl (Error (''Time Doctor API range error: '' @ msg))
          \<and> fetchTimeDoctorWorklogs env config (Some fromDate) (Some toDate) userIds = Inr [])
   \<and> (worklogApi env (requestOf config fromDate toDate userIds) = Ok (Inr (JArr []))
      \<longrightarrow> fetchTimeDoctorWorklogs env config (Some fromDate) (Some toDate) userIds = Inr [])"
  using fetchTimeDoctorWorklogs_returns [of env config fromDate toDate userIds]
    fetchTimeDoctorWorklogs_caught [of env config fromDate toDate userIds]
    range_error_thrown [of env config fromDate toDate userIds data msg]
    nothing_logged [of env config fromDate toDate userIds]
  by auto

text \<open>
  The window of days 108 to 115 of the range-limited tracker reports a range error, the
  tracker that is down throws from \<open>fetch\<close>, the idle tracker has nothing logged: the
  caller gets the same empty array three times.
\<close>

theorem fetchTimeDoctorWorklogs_never_throws_witness:
  "worklogApi rangeLimitedEnv (requestOf exampleConfig (day 108) (day 115) (Some [''u1'']))
     = Ok (Inr (JObj [(''error'', JStr ''mergeRange: range too wide'')]))
   \<and> includesText ''mergeRange: range too wide'' ''range too wide''
   \<and> fetchBody rangeLimitedEnv exampleConfig (day 108) (day 115) (Some [''u1''])
     = Inl (Error ''Time Doctor API range error: mergeRange: range too wide'')
   \<and> fetchTimeDoctorWorklogs rangeLimitedEnv exampleConfig (Some (day 108)) (Some (day 115))
        (Some [''u1'']) = Inr []
   \<and> fetchBody downEnv exampleConfig (day 108) (day 115) (Some [''u1''])
     = Inl (Error ''fetch failed'')
   \<and> fetchTimeDoctorWorklogs downEnv exampleConfig (Some (day 108)) (Some (day 115))
        (Some [''u1'']) = Inr []
   \<and> fetchTimeDoctorWorklogs idleEnv exampleConfig (Some (day 108)) (Some (day 115))
        (Some [''u1'']) = Inr []"
proof -
  let ?data = "JObj [(''error'', JStr ''mergeRange: range too wide'')]"
  have a: "worklogApi rangeLimitedEnv (requestOf exampleConfig (day 108) (day 115) (Some [''u1'']))
      = Ok (Inr ?data)"
    by code_simp
  have b: "getq ?data ''error'' = JStr ''mergeRange: range too wide''"
    by simp
  have c: "includesText ''mergeRange: range too wide'' ''range too wide''"
    by code_simp
  have d: "fetchBody downEnv exampleConfig (day 108) (day 115) (Some [''u1''])
      = Inl (Error ''fetch failed'')"
    by (simp add: fetchBody_def downEnv_def)
  have i: "worklogApi idleEnv (requestOf exampleConfig (day 108) (day 115) (Some [''u1'']))
      = Ok (Inr (JArr []))"
    by (simp add: idleEnv_def)
  have "fetchBody rangeLimitedEnv exampleConfig (day 108) (day 115) (Some [''u1''])
        = Inl (Error (''Time Doctor API range error: '' @ ''mergeRange: range too wide''))
      \<and> fetchTimeDoctorWorklogs rangeLimitedEnv exampleConfig (Some (day 108)) (Some (day 115))
        (Some [''u1'']) = Inr []"
    using fetchTimeDoctorWorklogs_never_throws
      [of rangeLimitedEnv exampleConfig "day 108" "day 115" "Some [''u1'']" _ ?data
        "''mergeRange: range too wide''"] a b c
    by blast
  moreover have "fetchTimeDoctorWorklogs downEnv exampleConfig (Some (day 108)) (Some (day 115))
        (Some [''u1'']) = Inr []"
    using fetchTimeDoctorWorklogs_never_throws
      [of downEnv exampleConfig "day 108" "day 115" "Some [''u1'']" "Error ''fetch failed''"] d
    by blast
  moreover have "fetchTimeDoctorWorklogs idleEnv exampleConfig (Some (day 108)) (Some (day 115))
        (Some [''u1'']) = Inr []"
    using fetchTimeDoctorWorklogs_never_throws
      [of idleEnv exampleConfig "day 108" "day 115" "Some [''u1'']"] i
    by blast
  ultimately show ?thesis using a c d by simp
qed

text \<open>
  Claim C1, on the code. A request of 30 days, from day 100 to day 130, against the
  range-limited tracker. The fetch of the primary window of days 108 to 115 throws the
  range error inside \<open>fetchTimeDoctorWorklogs\<close>, and each of its three 3-day
  sub-windows would be answered with a worklog. The aggregate holds the worklogs of the
  other primary windows only, and no sub-window was ever requested: the range error
  does not reach the loop, which sees an empty window.
\<close>

theorem chunked_fetch_range_error_not_recovered:
  "fetchBody rangeLimitedEnv exampleConfig (day 108) (day 115) (Some [''u1''])
     = Inl (Error ''Time Doctor API range error: mergeRange: range too wide'')
   \<and> spec_subWindows (day 108) (day 115)
     = [(day 108, day 111), (day 111, day 114), (day 114, day 115)]
   \<and> map (\<lambda>(a, b). fetchTimeDoctorWorklogs rangeLimitedEnv exampleConfig (Some a) (Some b)
                      (Some [''u1'']))
        (spec_subWindows (day 108) (day 115))
     = [Inr [mappedAt (day 108)], Inr [mappedAt (day 111)], Inr [mappedAt (day 114)]]
   \<and> fetchAllWorklogs rangeLimitedEnv exampleConfig (Some (day 100)) (Some (day 130)) [''u1'']
     = Inr ([mappedAt (day 100), mappedAt (day 116), mappedAt (day 124)],
            [(day 100, day 107), (day 108, day 115), (day 116, day 123), (day 124, day 130),
             (day 131, day 130)])"
proof -
  have a: "fetchBody rangeLimitedEnv exampleConfig (day 108) (day 115) (Some [''u1''])
      = Inl (Error ''Time Doctor API range error: mergeRange: range too wide'')"
    by code_simp
  have b: "spec_subWindows (day 108) (day 115)
      = [(day 108, day 111), (day 111, day 114), (day 114, day 115)]"
    by code_simp
  have c: "map (\<lambda>(a, b). fetchTimeDoctorWorklogs rangeLimitedEnv exampleConfig (Some a) (Some b)
                      (Some [''u1'']))
        (spec_subWindows (day 108) (day 115))
      = [Inr [mappedAt (day 108)], Inr [mappedAt (day 111)], Inr [mappedAt (day 114)]]"
    by code_simp
  have d: "fetchAllWorklogs rangeLimitedEnv exampleConfig (Some (day 100)) (Some (day 130))
        [''u1'']
      = Inr ([mappedAt (day 100), mappedAt (day 116), mappedAt (day 124)],
            [(day 100, day 107), (day 108, day 115), (day 116, day 123), (day 124, day 130),
             (day 131, day 130)])"
    by code_simp
  show ?thesis
    using a b c d by (intro conjI)
qed

end
